theory Spec2Isabelle
  imports Complex_Main "HOL-Library.Char_ord" "HOL-Library.List_Lexorder"
begin

section \<open>Numbers\<close>

text \<open>
  A JavaScript number is an IEEE 754 binary64 value. The embedding reads numbers as
  reals, so comparisons are exact. Arithmetic is modelled twice, selected by an
  \<open>arithmetic\<close> argument: \<open>Exact\<close> leaves every result as it is, \<open>Binary64\<close> rounds the
  result of every operation to the nearest binary64 value, ties to the even significand,
  as the language does. This covers the smoothing filter, the overall score, the
  confidence of a measurement, the session score and the average score. Overflow to an
  infinity and NaN are not modelled; subnormal results are. Clock readings, counts and
  the scores of the three analyses are integers far below \<open>2^53\<close>, which both
  arithmetics compute exactly. The angles and the distance of \<open>extractMeasurements\<close> are
  modelled in exact arithmetic only: the accuracy of \<open>Math.atan2\<close> and \<open>Math.pow\<close> is
  left to the implementation of the language, and no property below depends on it.
\<close>

text \<open>\<open>floor_log2 v\<close> is the exponent \<open>e\<close> with \<open>2^e \<le> v < 2^(e+1)\<close>, for \<open>0 < v\<close>.\<close>

function floor_log2_up :: "real \<Rightarrow> int" where
  "floor_log2_up v = (if v < 2 then 0 else 1 + floor_log2_up (v / 2))"
  by pat_completeness auto
termination
  by (relation "measure (\<lambda>v. nat \<lfloor>v\<rfloor>)") (auto, linarith)

function floor_log2_down :: "real \<Rightarrow> int" where
  "floor_log2_down v = (if v \<le> 0 \<or> 1 \<le> v then 0 else floor_log2_down (v * 2) - 1)"
  by pat_completeness auto
termination
proof (relation "measure (\<lambda>v. nat \<lceil>1 / v\<rceil>)")
  show "wf (measure (\<lambda>v::real. nat \<lceil>1 / v\<rceil>))" by simp
next
  fix v :: real
  assume "\<not> (v \<le> 0 \<or> 1 \<le> v)"
  then have v: "0 < v" "v < 1" by auto
  define z where "z = 1 / v"
  have z: "1 < z" using v by (simp add: z_def)
  have "\<lceil>z / 2\<rceil> < \<lceil>z\<rceil>"
  proof (cases "z \<le> 2")
    case True
    with z have "\<lceil>z / 2\<rceil> = 1" by (intro ceiling_unique) auto
    moreover from z have "2 \<le> \<lceil>z\<rceil>" by linarith
    ultimately show ?thesis by simp
  next
    case False
    then have "z / 2 + 1 \<le> z" by simp
    then show ?thesis by linarith
  qed
  moreover have "0 < \<lceil>z\<rceil>" using z by linarith
  ultimately show "(v * 2, v) \<in> measure (\<lambda>v. nat \<lceil>1 / v\<rceil>)"
    by (simp add: z_def field_simps)
qed

declare floor_log2_up.simps [simp del] floor_log2_down.simps [simp del]

definition floor_log2 :: "real \<Rightarrow> int" where
  "floor_log2 v = (if 1 \<le> v then floor_log2_up v else floor_log2_down v)"

definition pow2 :: "int \<Rightarrow> real" where
  "pow2 e = (if 0 \<le> e then 2 ^ nat e else 1 / 2 ^ nat (- e))"

definition round_half_even :: "real \<Rightarrow> int" where
  "round_half_even v =
     (let f = \<lfloor>v\<rfloor>; d = v - of_int f
      in if d < 1 / 2 then f else if 1 / 2 < d then f + 1 else if even f then f else f + 1)"

text \<open>
  The binary64 value nearest to a real: 53 significant bits, the exponent of the last
  bit no smaller than \<open>-1074\<close>.
\<close>

definition b64 :: "real \<Rightarrow> real" where
  "b64 v =
     (if v = 0 then 0
      else let e = max (floor_log2 \<bar>v\<bar>) (- 1022) - 52
           in of_int (round_half_even (v / pow2 e)) * pow2 e)"

datatype arithmetic = Exact | Binary64

fun rnd :: "arithmetic \<Rightarrow> real \<Rightarrow> real" where
  "rnd Exact v = v"
| "rnd Binary64 v = b64 v"

text \<open>\<open>Math.round\<close>: the nearest integer, a tie going up.\<close>

definition math_round :: "real \<Rightarrow> int" where
  "math_round v = \<lfloor>v + 1 / 2\<rfloor>"

text \<open>
  \<open>Math.atan2(y, x)\<close> on reals. The source calls it with a negated second argument,
  which is the negative zero when that argument is zero; the only call where the sign
  of a zero is seen is \<open>atan2(0, -0)\<close>, which is \<open>pi\<close> (see \<open>vectorAngle\<close> below).
\<close>

definition atan2 :: "real \<Rightarrow> real \<Rightarrow> real" where
  "atan2 b a =
     (if 0 < a then arctan (b / a)
      else if a < 0 then (if 0 \<le> b then arctan (b / a) + pi else arctan (b / a) - pi)
      else if 0 < b then pi / 2
      else if b < 0 then - (pi / 2)
      else 0)"

section \<open>Posture analysis (js/posture-analysis.js)\<close>

datatype status = Excellent | Good | Warning | Poor | Unknown

record landmark =
  lm_x :: real
  lm_y :: real
  visibility :: real

record imageSize =
  width :: real
  height :: real

record shoulderData =
  asymmetry :: real
  leftHeight :: real
  rightHeight :: real
  forwardProjection :: real

text \<open>The numeric fields of a measurement; they are present exactly when it is valid.\<close>

record readings =
  neckAngle :: real
  torsoAngle :: real
  shoulderData :: shoulderData

record measurements =
  isValid :: bool
  confidence :: real
  readings :: "readings option"

text \<open>
  The result of one of the three analyses. For the shoulders, the source names the last
  field \<open>asymmetry\<close>; it is \<open>angle\<close> here.
\<close>

record analysis =
  score :: real
  status :: status
  issues :: "string list"
  angle :: real

record recentMeasurements =
  neck :: "real list"
  torso :: "real list"
  shoulders :: "real list"

record angles =
  angles_neck :: int
  angles_torso :: int
  angles_shoulders :: int

record postureState =
  st_status :: status
  st_score :: int
  st_angles :: angles
  st_issues :: "string list"
  st_recommendations :: "string list"
  st_timestamp :: int
  st_confidence :: real

text \<open>
  The fields of the class that its methods read after construction. \<open>weights\<close> and
  \<open>smoothingWindow\<close> are assigned in the constructor only, so they are constants.
\<close>

record postureAnalysis =
  recentMeasurements :: recentMeasurements
  currentState :: postureState

text \<open>The weights \<open>0.4\<close>, \<open>0.35\<close> and \<open>0.25\<close>, as numbers of the arithmetic.\<close>

definition weights_neck :: "arithmetic \<Rightarrow> real" where
  "weights_neck a = rnd a (4 / 10)"

definition weights_torso :: "arithmetic \<Rightarrow> real" where
  "weights_torso a = rnd a (35 / 100)"

definition weights_shoulders :: "arithmetic \<Rightarrow> real" where
  "weights_shoulders a = rnd a (25 / 100)"

definition smoothingWindow :: nat where "smoothingWindow = 10"

definition emptyMeasurements :: recentMeasurements where
  "emptyMeasurements = \<lparr>neck = [], torso = [], shoulders = []\<rparr>"

definition newPostureAnalysis :: "int \<Rightarrow> postureAnalysis" where
  "newPostureAnalysis now =
     \<lparr>recentMeasurements = emptyMeasurements,
      currentState = \<lparr>st_status = Unknown, st_score = 0,
        st_angles = \<lparr>angles_neck = 0, angles_torso = 0, angles_shoulders = 0\<rparr>,
        st_issues = [], st_recommendations = [], st_timestamp = now, st_confidence = 0\<rparr>\<rparr>"

definition getDefaultPostureState :: "int \<Rightarrow> postureState" where
  "getDefaultPostureState now =
     \<lparr>st_status = Unknown, st_score = 0,
      st_angles = \<lparr>angles_neck = 0, angles_torso = 0, angles_shoulders = 0\<rparr>,
      st_issues = [''Unable to detect posture''],
      st_recommendations = [''Ensure you are visible to the camera''],
      st_timestamp = now, st_confidence = 0\<rparr>"

definition resetSmoothing :: "postureAnalysis \<Rightarrow> postureAnalysis" where
  "resetSmoothing pa = pa\<lparr>recentMeasurements := emptyMeasurements\<rparr>"

subsection \<open>extractMeasurements\<close>

text \<open>
  \<open>landmarks[i]\<close>: \<open>undefined\<close> beyond the end of the list; an entry of the list may
  itself be missing.
\<close>

definition landmarkAt :: "landmark option list \<Rightarrow> nat \<Rightarrow> landmark option" where
  "landmarkAt landmarks i = (if i < length landmarks then landmarks ! i else None)"

text \<open>\<open>landmark && landmark.visibility > 0.5\<close>.\<close>

definition isVisible :: "landmark option \<Rightarrow> bool" where
  "isVisible l = (case l of None \<Rightarrow> False | Some p \<Rightarrow> 1 / 2 < visibility p)"

text \<open>
  \<open>Math.atan2(vx, -vy) * (180 / Math.PI)\<close>, where \<open>vx\<close> is a difference or an absolute
  value (so a zero \<open>vx\<close> is the positive zero) and \<open>-vy\<close> is the negative zero when
  \<open>vy\<close> is zero.
\<close>

definition vectorAngle :: "real \<Rightarrow> real \<Rightarrow> real" where
  "vectorAngle vx vy = (if vx = 0 \<and> vy = 0 then 180 else atan2 vx (- vy) * (180 / pi))"

definition calculateShoulderForwardProjection ::
  "landmark \<Rightarrow> landmark \<Rightarrow> real \<times> real \<Rightarrow> real \<times> real \<Rightarrow> real" where
  "calculateShoulderForwardProjection leftShoulder rightShoulder shoulderMidpoint hipMidpoint =
     sqrt ((fst shoulderMidpoint - fst hipMidpoint)\<^sup>2 + (snd shoulderMidpoint - snd hipMidpoint)\<^sup>2)
       * 100"

text \<open>The result \<open>{ isValid: false, confidence: 0 }\<close>.\<close>

definition invalidMeasurements :: measurements where
  "invalidMeasurements = \<lparr>isValid = False, confidence = 0, readings = None\<rparr>"

text \<open>
  The confidence is the sum of the five visibilities, added one by one from 0, divided by
  5, in the arithmetic \<open>a\<close>.
\<close>

definition extractMeasurements ::
  "arithmetic \<Rightarrow> landmark option list \<Rightarrow> imageSize \<Rightarrow> measurements" where
  "extractMeasurements a landmarks imgSize =
     (let requiredLandmarks = map (landmarkAt landmarks) [0, 11, 12, 23, 24];
          allVisible = list_all isVisible requiredLandmarks
      in if \<not> allVisible then invalidMeasurements
         else case requiredLandmarks of
           [Some nose, Some leftShoulder, Some rightShoulder, Some leftHip, Some rightHip] \<Rightarrow>
             let conf = rnd a (foldl (\<lambda>sum l. rnd a (sum + visibility l)) 0
                                 [nose, leftShoulder, rightShoulder, leftHip, rightHip]
                               / real (length requiredLandmarks));
                 shoulderMidpoint = ((lm_x leftShoulder + lm_x rightShoulder) / 2,
                                     (lm_y leftShoulder + lm_y rightShoulder) / 2);
                 neckVector = (lm_x nose - fst shoulderMidpoint, lm_y nose - snd shoulderMidpoint);
                 neckAngle = vectorAngle (fst neckVector) (snd neckVector);
                 hipMidpoint = ((lm_x leftHip + lm_x rightHip) / 2,
                                (lm_y leftHip + lm_y rightHip) / 2);
                 torsoVector = (fst shoulderMidpoint - fst hipMidpoint,
                                snd shoulderMidpoint - snd hipMidpoint);
                 torsoAngle = vectorAngle \<bar>fst torsoVector\<bar> (snd torsoVector);
                 shoulderData =
                   \<lparr>asymmetry = \<bar>lm_y leftShoulder - lm_y rightShoulder\<bar> * height imgSize,
                    leftHeight = lm_y leftShoulder,
                    rightHeight = lm_y rightShoulder,
                    forwardProjection = calculateShoulderForwardProjection
                      leftShoulder rightShoulder shoulderMidpoint hipMidpoint\<rparr>
             in \<lparr>isValid = True, confidence = conf,
                 readings = Some \<lparr>neckAngle = neckAngle, torsoAngle = torsoAngle,
                                  shoulderData = shoulderData\<rparr>\<rparr>
         | _ \<Rightarrow> invalidMeasurements)"

subsection \<open>applySmoothingFilter, calculateMovingAverage\<close>

definition calculateMovingAverage :: "arithmetic \<Rightarrow> real list \<Rightarrow> real" where
  "calculateMovingAverage a vs =
     (if length vs = 0 then 0
      else rnd a (foldl (\<lambda>sum v. rnd a (sum + v)) 0 vs / real (length vs)))"

text \<open>The body of the \<open>forEach\<close> over the three windows: \<open>shift\<close> drops the oldest value.\<close>

definition keepRecent :: "real list \<Rightarrow> real list" where
  "keepRecent vs = (if smoothingWindow < length vs then tl vs else vs)"

definition applySmoothingFilter ::
  "arithmetic \<Rightarrow> readings \<Rightarrow> postureAnalysis \<Rightarrow> readings \<times> postureAnalysis" where
  "applySmoothingFilter a m pa =
     (let rm = recentMeasurements pa;
          pushed = \<lparr>neck = neck rm @ [neckAngle m],
                    torso = torso rm @ [torsoAngle m],
                    shoulders = shoulders rm @ [asymmetry (shoulderData m)]\<rparr>;
          kept = \<lparr>neck = keepRecent (neck pushed),
                  torso = keepRecent (torso pushed),
                  shoulders = keepRecent (shoulders pushed)\<rparr>;
          smoothedNeckAngle = calculateMovingAverage a (neck kept);
          smoothedTorsoAngle = calculateMovingAverage a (torso kept);
          smoothedShoulderAsymmetry = calculateMovingAverage a (shoulders kept)
      in (\<lparr>neckAngle = smoothedNeckAngle,
           torsoAngle = smoothedTorsoAngle,
           shoulderData = (shoulderData m)\<lparr>asymmetry := smoothedShoulderAsymmetry\<rparr>\<rparr>,
          pa\<lparr>recentMeasurements := kept\<rparr>))"

text \<open>Feeding a sequence of valid frames, oldest first; only the state is kept.\<close>

definition feedFrames :: "arithmetic \<Rightarrow> readings list \<Rightarrow> postureAnalysis \<Rightarrow> postureAnalysis" where
  "feedFrames a ms pa = foldl (\<lambda>p m. snd (applySmoothingFilter a m p)) pa ms"

text \<open>
  The smoothed measurements returned for the last of a sequence of valid frames.
\<close>

definition lastSmoothed ::
  "arithmetic \<Rightarrow> readings list \<Rightarrow> postureAnalysis \<Rightarrow> readings option" where
  "lastSmoothed a ms pa =
     (if ms = [] then None
      else Some (fst (applySmoothingFilter a (last ms) (feedFrames a (butlast ms) pa))))"

text \<open>
  The three channels, the keys of \<open>recentMeasurements\<close>: the window of a channel, and
  the value of a channel in raw or smoothed measurements.
\<close>

datatype channel = Neck | Torso | Shoulders

fun window :: "channel \<Rightarrow> postureAnalysis \<Rightarrow> real list" where
  "window Neck pa = neck (recentMeasurements pa)"
| "window Torso pa = torso (recentMeasurements pa)"
| "window Shoulders pa = shoulders (recentMeasurements pa)"

fun channelValue :: "channel \<Rightarrow> readings \<Rightarrow> real" where
  "channelValue Neck m = neckAngle m"
| "channelValue Torso m = torsoAngle m"
| "channelValue Shoulders m = asymmetry (shoulderData m)"

subsection \<open>The three analyses\<close>

definition analyzeNeckPosture :: "real \<Rightarrow> analysis" where
  "analyzeNeckPosture neckDeg =
     (let absAngle = \<bar>neckDeg\<bar>
      in if absAngle \<le> 5 then \<lparr>score = 100, status = Excellent, issues = [], angle = neckDeg\<rparr>
         else if absAngle \<le> 10 then \<lparr>score = 85, status = Good, issues = [], angle = neckDeg\<rparr>
         else if absAngle \<le> 20 then
           \<lparr>score = 60, status = Warning,
            issues = [if 0 < neckDeg then ''Forward head posture detected''
                      else ''Head tilted backward''],
            angle = neckDeg\<rparr>
         else
           \<lparr>score = 30, status = Poor,
            issues = [if 0 < neckDeg then ''Severe forward head posture''
                      else ''Severe backward head tilt''],
            angle = neckDeg\<rparr>)"

definition analyzeTorsoPosture :: "real \<Rightarrow> analysis" where
  "analyzeTorsoPosture torsoDeg =
     (if 85 \<le> torsoDeg \<and> torsoDeg \<le> 95 then
        \<lparr>score = 100, status = Excellent, issues = [], angle = torsoDeg\<rparr>
      else if 80 \<le> torsoDeg \<and> torsoDeg \<le> 100 then
        \<lparr>score = 80, status = Good, issues = [], angle = torsoDeg\<rparr>
      else if 70 \<le> torsoDeg \<and> torsoDeg \<le> 110 then
        \<lparr>score = 50, status = Warning,
         issues = [if torsoDeg < 85 then ''Leaning forward'' else ''Leaning backward''],
         angle = torsoDeg\<rparr>
      else
        \<lparr>score = 20, status = Poor,
         issues = [if torsoDeg < 70 then ''Severe forward lean'' else ''Severe backward lean''],
         angle = torsoDeg\<rparr>)"

text \<open>
  \<open>analyzeShoulderPosture\<close> runs two checks in order on the running \<open>score\<close>,
  \<open>status\<close> and \<open>issues\<close>; each check is a function of its own here, so that the
  status between the two can be named.
\<close>

definition checkShoulderAsymmetry :: "shoulderData \<Rightarrow> analysis \<Rightarrow> analysis" where
  "checkShoulderAsymmetry sd r =
     (if 10 < asymmetry sd then
        r\<lparr>score := score r - 30, status := Warning,
          issues := issues r @ [''Uneven shoulder height'']\<rparr>
      else if 5 < asymmetry sd then
        r\<lparr>score := score r - 15,
          status := (if status r = Excellent then Good else status r)\<rparr>
      else r)"

definition checkForwardProjection :: "shoulderData \<Rightarrow> analysis \<Rightarrow> analysis" where
  "checkForwardProjection sd r =
     (if 20 < forwardProjection sd then
        r\<lparr>score := score r - 40, status := Poor,
          issues := issues r @ [''Rounded shoulders'']\<rparr>
      else if 15 < forwardProjection sd then
        r\<lparr>score := score r - 20,
          status := (if status r = Excellent then Warning else status r),
          issues := issues r @ [''Slight shoulder rounding'']\<rparr>
      else r)"

definition analyzeShoulderPosture :: "shoulderData \<Rightarrow> analysis" where
  "analyzeShoulderPosture sd =
     checkForwardProjection sd
       (checkShoulderAsymmetry sd
          \<lparr>score = 100, status = Excellent, issues = [], angle = asymmetry sd\<rparr>)"

text \<open>
  The status that each check assigns to a posture that was excellent before it: the
  severity of the penalty it applies, \<open>Excellent\<close> when it applies none.
\<close>

definition asymmetrySeverity :: "shoulderData \<Rightarrow> status" where
  "asymmetrySeverity sd =
     (if 10 < asymmetry sd then Warning else if 5 < asymmetry sd then Good else Excellent)"

definition forwardSeverity :: "shoulderData \<Rightarrow> status" where
  "forwardSeverity sd =
     (if 20 < forwardProjection sd then Poor
      else if 15 < forwardProjection sd then Warning else Excellent)"

text \<open>The chain \<open>excellent, good, warning, poor\<close> as a rank.\<close>

fun severity :: "status \<Rightarrow> nat" where
  "severity Excellent = 0"
| "severity Good = 1"
| "severity Warning = 2"
| "severity Poor = 3"
| "severity Unknown = 4"

subsection \<open>Overall score, status, issues, recommendations\<close>

definition calculateOverallScore ::
  "arithmetic \<Rightarrow> analysis \<Rightarrow> analysis \<Rightarrow> analysis \<Rightarrow> real" where
  "calculateOverallScore a neckAnalysis torsoAnalysis shoulderAnalysis =
     rnd a (rnd a (rnd a (score neckAnalysis * weights_neck a)
                     + rnd a (score torsoAnalysis * weights_torso a))
              + rnd a (score shoulderAnalysis * weights_shoulders a))"

definition determinePostureStatus :: "real \<Rightarrow> status" where
  "determinePostureStatus s =
     (if 90 \<le> s then Excellent else if 75 \<le> s then Good else if 60 \<le> s then Warning else Poor)"

text \<open>\<open>self.indexOf(issue)\<close>: the first position of the issue, \<open>-1\<close> when it is absent.\<close>

fun indexOf :: "string list \<Rightarrow> string \<Rightarrow> int" where
  "indexOf [] v = - 1"
| "indexOf (u # us) v =
     (if u = v then 0 else let i = indexOf us v in if i = - 1 then - 1 else i + 1)"

definition identifyPostureIssues :: "analysis \<Rightarrow> analysis \<Rightarrow> analysis \<Rightarrow> string list" where
  "identifyPostureIssues neckAnalysis torsoAnalysis shoulderAnalysis =
     (let allIssues = issues neckAnalysis @ issues torsoAnalysis @ issues shoulderAnalysis
      in map fst (filter (\<lambda>(issue, index). indexOf allIssues issue = int index)
                    (zip allIssues [0 ..< length allIssues])))"

definition recommendationMap :: "(string \<times> string) list" where
  "recommendationMap =
     [(''Forward head posture detected'',
         ''Pull your chin back and align your ears over your shoulders''),
      (''Severe forward head posture'',
         ''Perform neck strengthening exercises and adjust monitor height''),
      (''Head tilted backward'', ''Lower your chin slightly and check your screen height''),
      (''Leaning forward'', ''Sit back in your chair and engage your core muscles''),
      (''Severe forward lean'', ''Take a break and practice spinal extension exercises''),
      (''Leaning backward'', ''Engage your core and bring your torso more upright''),
      (''Uneven shoulder height'',
         ''Check your workspace setup and avoid carrying bags on one side''),
      (''Rounded shoulders'', ''Pull your shoulder blades together and stretch your chest''),
      (''Slight shoulder rounding'', ''Practice shoulder blade squeezes throughout the day'')]"

definition generateRecommendations :: "string list \<Rightarrow> string list" where
  "generateRecommendations found =
     map (\<lambda>issue. case map_of recommendationMap issue of
                     Some r \<Rightarrow> r | None \<Rightarrow> ''Maintain good posture awareness'') found"

subsection \<open>analyzePose\<close>

text \<open>The overall score of a frame, from its smoothed measurements alone.\<close>

definition overallScoreOf :: "arithmetic \<Rightarrow> readings \<Rightarrow> real" where
  "overallScoreOf a smoothed =
     calculateOverallScore a (analyzeNeckPosture (neckAngle smoothed))
       (analyzeTorsoPosture (torsoAngle smoothed))
       (analyzeShoulderPosture (shoulderData smoothed))"

text \<open>
  \<open>now\<close> is the reading of the clock. An invalid frame returns the default state and
  changes nothing; the list of landmarks is never \<open>null\<close> at the call.
\<close>

definition analyzePose ::
  "arithmetic \<Rightarrow> int \<Rightarrow> landmark option list \<Rightarrow> imageSize \<Rightarrow> postureAnalysis
     \<Rightarrow> postureState \<times> postureAnalysis" where
  "analyzePose a now landmarks imgSize pa =
     (if length landmarks = 0 then (getDefaultPostureState now, pa)
      else let m = extractMeasurements a landmarks imgSize
        in case (isValid m, readings m) of
          (True, Some r) \<Rightarrow>
            let (smoothedMeasurements, pa') = applySmoothingFilter a r pa;
                neckAnalysis = analyzeNeckPosture (neckAngle smoothedMeasurements);
                torsoAnalysis = analyzeTorsoPosture (torsoAngle smoothedMeasurements);
                shoulderAnalysis = analyzeShoulderPosture (shoulderData smoothedMeasurements);
                overallScore =
                  calculateOverallScore a neckAnalysis torsoAnalysis shoulderAnalysis;
                found = identifyPostureIssues neckAnalysis torsoAnalysis shoulderAnalysis;
                st = \<lparr>st_status = determinePostureStatus overallScore,
                      st_score = math_round overallScore,
                      st_angles =
                        \<lparr>angles_neck = math_round (neckAngle smoothedMeasurements),
                         angles_torso = math_round (torsoAngle smoothedMeasurements),
                         angles_shoulders =
                           math_round (asymmetry (shoulderData smoothedMeasurements))\<rparr>,
                      st_issues = found,
                      st_recommendations = generateRecommendations found,
                      st_timestamp = now,
                      st_confidence = confidence m\<rparr>
            in (st, pa'\<lparr>currentState := st\<rparr>)
        | _ \<Rightarrow> (getDefaultPostureState now, pa))"

section \<open>The session aggregator (class PostureGuardian)\<close>

text \<open>The posture states \<open>'good'\<close>, \<open>'poor'\<close> and \<open>'unknown'\<close> of a session.\<close>

datatype posture = GoodPosture | PoorPosture | UnknownPosture

record settings =
  neckThreshold :: real
  torsoThresholdMin :: real
  torsoThresholdMax :: real

record historyEntry =
  h_timestamp :: int
  h_state :: posture
  h_neckAngle :: real
  h_torsoAngle :: real

text \<open>Times are milliseconds, as \<open>Date.now()\<close> counts them.\<close>

record sessionData =
  totalTime :: int
  goodPostureTime :: int
  poorPostureWarnings :: nat
  currentPostureState :: posture
  postureHistory :: "historyEntry list"

record currentAngles =
  cur_neck :: real
  cur_torso :: real

record guardian =
  isRunning :: bool
  sessionStartTime :: "int option"
  sessionData :: sessionData
  currentAngles :: currentAngles
  settings :: settings

text \<open>The thresholds of the constructor's settings, and the session data of a new session.\<close>

definition defaultSettings :: settings where
  "defaultSettings = \<lparr>neckThreshold = 15, torsoThresholdMin = 85, torsoThresholdMax = 95\<rparr>"

definition freshSessionData :: sessionData where
  "freshSessionData =
     \<lparr>totalTime = 0, goodPostureTime = 0, poorPostureWarnings = 0,
      currentPostureState = UnknownPosture, postureHistory = []\<rparr>"

definition newGuardian :: guardian where
  "newGuardian =
     \<lparr>isRunning = False, sessionStartTime = None, sessionData = freshSessionData,
      currentAngles = \<lparr>cur_neck = 0, cur_torso = 0\<rparr>, settings = defaultSettings\<rparr>"

text \<open>The state changes of \<open>startMonitoring\<close>, once the camera has started.\<close>

definition startMonitoring :: "int \<Rightarrow> guardian \<Rightarrow> guardian" where
  "startMonitoring now g =
     g\<lparr>isRunning := True, sessionStartTime := Some now, sessionData := freshSessionData\<rparr>"

definition classifyPosture :: "settings \<Rightarrow> real \<Rightarrow> real \<Rightarrow> posture" where
  "classifyPosture cfg neckDeg torsoDeg =
     (let neckGood = (neckDeg \<le> neckThreshold cfg);
          torsoGood = (torsoThresholdMin cfg \<le> torsoDeg
                       \<and> torsoDeg \<le> torsoThresholdMax cfg + 15)
      in if neckGood \<and> torsoGood then GoodPosture else PoorPosture)"

text \<open>\<open>if (this.sessionStartTime)\<close>: neither \<open>null\<close> nor zero.\<close>

definition started :: "int option \<Rightarrow> bool" where
  "started t = (case t of None \<Rightarrow> False | Some v \<Rightarrow> v \<noteq> 0)"

text \<open>\<open>history.slice(-500)\<close>: the last 500 entries, all of them when there are fewer.\<close>

definition sliceLast :: "nat \<Rightarrow> 'a list \<Rightarrow> 'a list" where
  "sliceLast n xs = drop (length xs - n) xs"

definition updateSessionData :: "int \<Rightarrow> posture \<Rightarrow> guardian \<Rightarrow> guardian" where
  "updateSessionData now postureState g =
     (let sd = sessionData g;
          timed = (case sessionStartTime g of
                     Some start \<Rightarrow>
                       if started (Some start) then
                         let elapsed = now - start;
                             sd' = sd\<lparr>totalTime := elapsed\<rparr>
                         in if postureState = GoodPosture
                            then sd'\<lparr>goodPostureTime := goodPostureTime sd' + 100\<rparr>
                            else sd'
                       else sd
                   | None \<Rightarrow> sd);
          pushed = postureHistory timed @
                     [\<lparr>h_timestamp = now, h_state = postureState,
                       h_neckAngle = cur_neck (currentAngles g),
                       h_torsoAngle = cur_torso (currentAngles g)\<rparr>];
          limited = (if 1000 < length pushed then sliceLast 500 pushed else pushed)
      in g\<lparr>sessionData := timed\<lparr>postureHistory := limited\<rparr>\<rparr>)"

text \<open>Of \<open>handlePostureChange\<close>, the part that changes the session; the alerts are left out.\<close>

definition handlePostureChange :: "posture \<Rightarrow> guardian \<Rightarrow> guardian" where
  "handlePostureChange newState g =
     (if newState = PoorPosture \<and> currentPostureState (sessionData g) \<noteq> PoorPosture
      then g\<lparr>sessionData :=
               (sessionData g)\<lparr>poorPostureWarnings := poorPostureWarnings (sessionData g) + 1\<rparr>\<rparr>
      else g)"

text \<open>
  \<open>analyzePosture\<close>, given the two angles that \<open>calculateNeckAngle\<close> and
  \<open>calculateTorsoAngle\<close> compute from the landmarks.
\<close>

definition analyzePosture :: "int \<Rightarrow> real \<Rightarrow> real \<Rightarrow> guardian \<Rightarrow> guardian" where
  "analyzePosture now neckDeg torsoDeg g =
     (let g1 = g\<lparr>currentAngles := \<lparr>cur_neck = neckDeg, cur_torso = torsoDeg\<rparr>\<rparr>;
          postureState = classifyPosture (settings g1) neckDeg torsoDeg;
          g2 = updateSessionData now postureState g1;
          g3 = (if postureState \<noteq> currentPostureState (sessionData g2)
                then handlePostureChange postureState g2 else g2)
      in g3\<lparr>sessionData := (sessionData g3)\<lparr>currentPostureState := postureState\<rparr>\<rparr>)"

text \<open>A sequence of calls of \<open>updateSessionData\<close>, each with its clock reading and state.\<close>

definition updateAll :: "(int \<times> posture) list \<Rightarrow> guardian \<Rightarrow> guardian" where
  "updateAll frames g = foldl (\<lambda>h (now, postureState). updateSessionData now postureState h) g frames"

subsection \<open>saveSessionData\<close>

text \<open>
  The statistics object of \<open>loadStatistics\<close>: an object read from storage, or the empty
  object, so every field may be missing. A calendar date is the string of
  \<open>toDateString\<close>. An entry of \<open>weeklyData\<close> may be a hole.
\<close>

record statistics =
  totalSessions :: "nat option"
  stats_totalTime :: "int option"
  avgScore :: "real option"
  currentStreak :: "nat option"
  bestStreak :: "nat option"
  lastSessionDate :: "string option"
  weeklyData :: "real option list option"

definition emptyStatistics :: statistics where
  "emptyStatistics =
     \<lparr>totalSessions = None, stats_totalTime = None, avgScore = None, currentStreak = None,
      bestStreak = None, lastSessionDate = None, weeklyData = None\<rparr>"

text \<open>\<open>v || 0\<close> for a number that may be missing.\<close>

definition orZero :: "'a::zero option \<Rightarrow> 'a" where
  "orZero v = (case v of None \<Rightarrow> 0 | Some n \<Rightarrow> n)"

text \<open>
  Division: a zero divisor gives NaN or an infinity in the language, which is no real
  number; it is \<open>None\<close> here.
\<close>

definition js_divide :: "arithmetic \<Rightarrow> real \<Rightarrow> real \<Rightarrow> real option" where
  "js_divide a p q = (if q = 0 then None else Some (rnd a (p / q)))"

definition sessionScore :: "arithmetic \<Rightarrow> sessionData \<Rightarrow> real option" where
  "sessionScore a sd =
     (if 0 < totalTime sd then
        map_option (\<lambda>q. rnd a (q * 100))
          (js_divide a (real_of_int (goodPostureTime sd)) (real_of_int (totalTime sd)))
      else Some 0)"

text \<open>\<open>xs[i] = v\<close>: an index beyond the end extends the list, leaving holes.\<close>

definition setIndex :: "'a option list \<Rightarrow> nat \<Rightarrow> 'a \<Rightarrow> 'a option list" where
  "setIndex xs i v =
     (if i < length xs then xs[i := Some v] else xs @ replicate (i - length xs) None @ [Some v])"

text \<open>The block of \<open>saveSessionData\<close> that updates the daily streak.\<close>

definition updateStreak :: "string \<Rightarrow> real \<Rightarrow> statistics \<Rightarrow> statistics" where
  "updateStreak today sessScore stats =
     (if lastSessionDate stats \<noteq> Some today then
        (if 70 \<le> sessScore then
           let cur = orZero (currentStreak stats) + 1
           in stats\<lparr>currentStreak := Some cur,
                    bestStreak := Some (max (orZero (bestStreak stats)) cur)\<rparr>
         else stats\<lparr>currentStreak := Some 0\<rparr>)
          \<lparr>lastSessionDate := Some today\<rparr>
      else stats)"

text \<open>
  The statistics that \<open>saveSessionData\<close> writes to storage, from those it loaded:
  \<open>today\<close> and \<open>dayIndex\<close> are the calendar date and the day of the week of the clock.
  \<open>None\<close> is a division by zero.
\<close>

definition saveSessionData ::
  "arithmetic \<Rightarrow> string \<Rightarrow> nat \<Rightarrow> sessionData \<Rightarrow> statistics \<Rightarrow> statistics option" where
  "saveSessionData a today dayIndex sd stats =
     (let n = orZero (totalSessions stats) + 1;
          stats1 = stats\<lparr>totalSessions := Some n,
                         stats_totalTime := Some (orZero (stats_totalTime stats) + totalTime sd)\<rparr>
      in case sessionScore a sd of
           None \<Rightarrow> None
         | Some sessScore \<Rightarrow>
             (case js_divide a
                     (rnd a (rnd a (orZero (avgScore stats1) * (real n - 1)) + sessScore))
                     (real n) of
                None \<Rightarrow> None
              | Some avg \<Rightarrow>
                  let stats2 = updateStreak today sessScore (stats1\<lparr>avgScore := Some avg\<rparr>);
                      week = (case weeklyData stats2 of
                                None \<Rightarrow> replicate 7 (Some 0) | Some w \<Rightarrow> w)
                  in Some (stats2\<lparr>weeklyData := Some (setIndex week dayIndex sessScore)\<rparr>)))"

text \<open>
  A sequence of ended sessions, oldest first, each with its calendar date, its day of the
  week and its session data; the statistics after each of them, a division by zero
  leaving the stored statistics as they were.
\<close>

fun saveAll ::
  "arithmetic \<Rightarrow> (string \<times> nat \<times> sessionData) list \<Rightarrow> statistics \<Rightarrow> statistics list" where
  "saveAll a [] stats = []"
| "saveAll a ((today, dayIndex, sd) # rest) stats =
     (let stats' = (case saveSessionData a today dayIndex sd stats of
                      None \<Rightarrow> stats | Some s \<Rightarrow> s)
      in stats' # saveAll a rest stats')"

section \<open>Stored statistics (class DataStorage)\<close>

text \<open>
  \<open>new Date(s)\<close> is a parameter: the time of a date string in milliseconds, \<open>None\<close> for
  an invalid date.
\<close>

definition isConsecutiveDay :: "(string \<Rightarrow> int option) \<Rightarrow> string \<Rightarrow> string \<Rightarrow> bool" where
  "isConsecutiveDay parseDate date1 date2 =
     (case (parseDate date1, parseDate date2) of
        (Some d1, Some d2) \<Rightarrow>
          let diffTime = \<bar>d2 - d1\<bar>;
              diffDays = \<lceil>real_of_int diffTime / (1000 * 60 * 60 * 24)\<rceil>
          in diffDays = 1
      | _ \<Rightarrow> False)"

text \<open>
  The loop of \<open>calculateStreak\<close> over the sorted dates; \<open>dates[streak]\<close> beyond the end
  is \<open>undefined\<close>, an invalid date.
\<close>

fun streakLoop ::
  "(string \<Rightarrow> int option) \<Rightarrow> string \<Rightarrow> string list \<Rightarrow> string list \<Rightarrow> nat \<Rightarrow> nat" where
  "streakLoop parseDate today dates [] streak = streak"
| "streakLoop parseDate today dates (date # rest) streak =
     (if date = today
         \<or> (streak < length dates \<and> isConsecutiveDay parseDate (dates ! streak) date)
      then streakLoop parseDate today dates rest (streak + 1)
      else streak)"

text \<open>\<open>keys\<close> are the keys of \<open>dailyStats\<close>; \<open>sort()\<close> orders strings by their characters.\<close>

definition calculateStreak :: "(string \<Rightarrow> int option) \<Rightarrow> string \<Rightarrow> string list \<Rightarrow> nat" where
  "calculateStreak parseDate today keys =
     (let dates = rev (sort keys) in streakLoop parseDate today dates dates 0)"

section \<open>Properties of the posture analysis\<close>

text \<open>The equations that evaluate the rounding of a given number.\<close>

lemmas b64_eval = b64_def floor_log2_def floor_log2_up.simps floor_log2_down.simps pow2_def
  round_half_even_def Let_def

subsection \<open>The overall score\<close>

lemma neck_score_values:
  "score (analyzeNeckPosture v) = 100 \<or> score (analyzeNeckPosture v) = 85
     \<or> score (analyzeNeckPosture v) = 60 \<or> score (analyzeNeckPosture v) = 30"
  by (simp add: analyzeNeckPosture_def Let_def)

lemma torso_score_values:
  "score (analyzeTorsoPosture v) = 100 \<or> score (analyzeTorsoPosture v) = 80
     \<or> score (analyzeTorsoPosture v) = 50 \<or> score (analyzeTorsoPosture v) = 20"
  by (simp add: analyzeTorsoPosture_def)

lemma shoulder_score_values:
  "score (analyzeShoulderPosture sd) = 100 \<or> score (analyzeShoulderPosture sd) = 85
     \<or> score (analyzeShoulderPosture sd) = 70 \<or> score (analyzeShoulderPosture sd) = 80
     \<or> score (analyzeShoulderPosture sd) = 65 \<or> score (analyzeShoulderPosture sd) = 50
     \<or> score (analyzeShoulderPosture sd) = 60 \<or> score (analyzeShoulderPosture sd) = 45
     \<or> score (analyzeShoulderPosture sd) = 30"
  by (simp add: analyzeShoulderPosture_def checkForwardProjection_def checkShoulderAsymmetry_def)

lemma neck_score_range: "30 \<le> score (analyzeNeckPosture v) \<and> score (analyzeNeckPosture v) \<le> 100"
  using neck_score_values [of v] by auto

lemma torso_score_range: "20 \<le> score (analyzeTorsoPosture v) \<and> score (analyzeTorsoPosture v) \<le> 100"
  using torso_score_values [of v] by auto

lemma shoulder_score_range:
  "30 \<le> score (analyzeShoulderPosture sd) \<and> score (analyzeShoulderPosture sd) \<le> 100"
  using shoulder_score_values [of sd] by auto

text \<open>
  The scores of the shoulder analysis, computed by subtraction, are binary64 numbers.
\<close>

lemma shoulder_scores_binary64:
  "b64 (100 - 30) = 70 \<and> b64 (100 - 15) = 85 \<and> b64 (100 - 40) = 60 \<and> b64 (100 - 20) = 80
     \<and> b64 (70 - 40) = 30 \<and> b64 (70 - 20) = 50 \<and> b64 (85 - 40) = 45 \<and> b64 (85 - 20) = 65"
  by (simp add: b64_eval)

text \<open>
  In binary64 arithmetic the three products and the two sums of the overall score are
  computed without a rounding error, for all scores that the analyses give.
\<close>

lemma binary64_weights:
  "b64 (4 / 10) = 3602879701896397 / 9007199254740992"
  "b64 (35 / 100) = 3152519739159347 / 9007199254740992"
  "b64 (25 / 100) = 1 / 4"
  by (simp_all add: b64_eval)

lemma binary64_weighted_sum:
  assumes n: "n = 100 \<or> n = 85 \<or> n = 60 \<or> n = 30"
    and t: "t = 100 \<or> t = 80 \<or> t = 50 \<or> t = 20"
    and s: "s = 100 \<or> s = 85 \<or> s = 70 \<or> s = 80 \<or> s = 65 \<or> s = 50 \<or> s = 60 \<or> s = 45 \<or> s = 30"
  shows "b64 (b64 (b64 (n * b64 (4 / 10)) + b64 (t * b64 (35 / 100))) + b64 (s * b64 (25 / 100)))
           = 4 / 10 * n + 35 / 100 * t + 25 / 100 * s"
proof -
  have p1: "b64 (n * b64 (4 / 10)) = 4 / 10 * n"
    using n unfolding binary64_weights by (elim disjE) (simp_all add: b64_eval)
  have p2: "b64 (t * b64 (35 / 100)) = 35 / 100 * t"
    using t unfolding binary64_weights by (elim disjE) (simp_all add: b64_eval)
  have p3: "b64 (s * b64 (25 / 100)) = 25 / 100 * s"
    using s unfolding binary64_weights by (elim disjE) (simp_all add: b64_eval)
  have s1: "b64 (4 / 10 * n + 35 / 100 * t) = 4 / 10 * n + 35 / 100 * t"
    using n t by (elim disjE) (simp_all add: b64_eval)
  have s2: "b64 (4 / 10 * n + 35 / 100 * t + 25 / 100 * s)
              = 4 / 10 * n + 35 / 100 * t + 25 / 100 * s"
    using n t s by (elim disjE) (simp_all add: b64_eval)
  show ?thesis by (simp only: p1 p2 p3 s1 s2)
qed

lemma overall_score_exact:
  "calculateOverallScore a (analyzeNeckPosture nv) (analyzeTorsoPosture tv)
     (analyzeShoulderPosture sd)
     = 4 / 10 * score (analyzeNeckPosture nv) + 35 / 100 * score (analyzeTorsoPosture tv)
         + 25 / 100 * score (analyzeShoulderPosture sd)"
proof (cases a)
  case Exact
  then show ?thesis
    by (simp add: calculateOverallScore_def weights_neck_def weights_torso_def
        weights_shoulders_def)
next
  case Binary64
  then show ?thesis
    using binary64_weighted_sum [OF neck_score_values [of nv] torso_score_values [of tv]
        shoulder_score_values [of sd]]
    by (simp add: calculateOverallScore_def weights_neck_def weights_torso_def
        weights_shoulders_def)
qed

lemma overallScoreOf_range: "0 \<le> overallScoreOf a sm \<and> overallScoreOf a sm \<le> 100"
proof -
  have "26 \<le> overallScoreOf a sm \<and> overallScoreOf a sm \<le> 100"
    using neck_score_range [of "neckAngle sm"] torso_score_range [of "torsoAngle sm"]
      shoulder_score_range [of "shoulderData sm"]
    by (simp add: overallScoreOf_def overall_score_exact)
  then show ?thesis by simp
qed

lemma math_round_range: "0 \<le> v \<Longrightarrow> v \<le> 100 \<Longrightarrow> 0 \<le> math_round v \<and> math_round v \<le> 100"
  unfolding math_round_def by (intro conjI; linarith)

text \<open>
  Claim C1. For every valid frame \<open>m\<close> and every state of the windows, the overall score
  computed from the smoothed measurements is 0.40 times the neck score plus 0.35 times the
  torso score plus 0.25 times the shoulder score, in exact arithmetic and, without any
  rounding error, in binary64 arithmetic; each of the three scores, the shoulder score
  after its penalties included, lies between 0 and 100, and so does the overall score.
  The overall score is the function \<open>overallScoreOf\<close> of the smoothed measurements alone,
  so computing it again from the same smoothed measurements gives the same score.
\<close>

theorem overall_score_weighted_sum:
  "(let smoothed = fst (applySmoothingFilter a m pa);
        neckAnalysis = analyzeNeckPosture (neckAngle smoothed);
        torsoAnalysis = analyzeTorsoPosture (torsoAngle smoothed);
        shoulderAnalysis = analyzeShoulderPosture (shoulderData smoothed);
        overallScore = calculateOverallScore a neckAnalysis torsoAnalysis shoulderAnalysis
    in overallScore = 0.40 * score neckAnalysis + 0.35 * score torsoAnalysis
                        + 0.25 * score shoulderAnalysis
       \<and> 0 \<le> score neckAnalysis \<and> score neckAnalysis \<le> 100
       \<and> 0 \<le> score torsoAnalysis \<and> score torsoAnalysis \<le> 100
       \<and> 0 \<le> score shoulderAnalysis \<and> score shoulderAnalysis \<le> 100
       \<and> 0 \<le> overallScore \<and> overallScore \<le> 100
       \<and> overallScore = overallScoreOf a smoothed)"
proof -
  define smoothed where "smoothed = fst (applySmoothingFilter a m pa)"
  define n where "n = score (analyzeNeckPosture (neckAngle smoothed))"
  define t where "t = score (analyzeTorsoPosture (torsoAngle smoothed))"
  define s where "s = score (analyzeShoulderPosture (shoulderData smoothed))"
  have n: "30 \<le> n" "n \<le> 100" using neck_score_range by (simp_all add: n_def)
  have t: "20 \<le> t" "t \<le> 100" using torso_score_range by (simp_all add: t_def)
  have s: "30 \<le> s" "s \<le> 100" using shoulder_score_range by (simp_all add: s_def)
  have eq: "calculateOverallScore a (analyzeNeckPosture (neckAngle smoothed))
              (analyzeTorsoPosture (torsoAngle smoothed))
              (analyzeShoulderPosture (shoulderData smoothed))
            = 0.40 * n + 0.35 * t + 0.25 * s"
    by (simp add: overall_score_exact n_def t_def s_def)
  have "0 \<le> 0.40 * n + 0.35 * t + 0.25 * s" using n t s by simp
  moreover have "0.40 * n + 0.35 * t + 0.25 * s \<le> 100" using n t s by simp
  ultimately show ?thesis
    using n t s eq
    by (simp add: Let_def overallScoreOf_def smoothed_def [symmetric] n_def [symmetric]
        t_def [symmetric] s_def [symmetric])
qed

text \<open>
  \<open>analyzePose\<close> stores that score rounded to an integer in the assessment of a valid
  frame; an invalid frame gets the default assessment and leaves the state alone.
\<close>

lemma analyzePose_valid_frame:
  assumes "landmarks \<noteq> []"
    and "isValid (extractMeasurements a landmarks imgSize)"
    and "readings (extractMeasurements a landmarks imgSize) = Some r"
  shows "st_score (fst (analyzePose a now landmarks imgSize pa))
           = math_round (overallScoreOf a (fst (applySmoothingFilter a r pa)))
       \<and> 0 \<le> st_score (fst (analyzePose a now landmarks imgSize pa))
       \<and> st_score (fst (analyzePose a now landmarks imgSize pa)) \<le> 100
       \<and> currentState (snd (analyzePose a now landmarks imgSize pa))
           = fst (analyzePose a now landmarks imgSize pa)"
proof -
  have "st_score (fst (analyzePose a now landmarks imgSize pa))
           = math_round (overallScoreOf a (fst (applySmoothingFilter a r pa)))
       \<and> currentState (snd (analyzePose a now landmarks imgSize pa))
           = fst (analyzePose a now landmarks imgSize pa)"
    using assms
    by (simp add: analyzePose_def Let_def overallScoreOf_def split: prod.splits)
  then show ?thesis
    using math_round_range overallScoreOf_range by simp
qed

lemma analyzePose_invalid_frame:
  "\<not> isValid (extractMeasurements a landmarks imgSize) \<Longrightarrow>
     analyzePose a now landmarks imgSize pa = (getDefaultPostureState now, pa)"
  by (simp add: analyzePose_def Let_def split: option.splits bool.splits)

lemma upright_frame_scores_100:
  "overallScoreOf a \<lparr>neckAngle = 0, torsoAngle = 90,
      shoulderData = \<lparr>asymmetry = 0, leftHeight = 0, rightHeight = 0, forwardProjection = 0\<rparr>\<rparr>
     = 100"
  by (simp add: overallScoreOf_def overall_score_exact)
    (simp add: analyzeNeckPosture_def
      analyzeTorsoPosture_def analyzeShoulderPosture_def checkShoulderAsymmetry_def
      checkForwardProjection_def)

subsection \<open>The frame adapter\<close>

lemma landmark_cases:
  "landmarkAt landmarks i = None \<or> (\<exists>p. landmarkAt landmarks i = Some p \<and> visibility p \<le> 1 / 2)
     \<longleftrightarrow> \<not> isVisible (landmarkAt landmarks i)"
  by (auto simp add: isVisible_def split: option.splits)

text \<open>
  Claim C8, as amended. When one of the five required landmarks (nose 0, shoulders 11 and
  12, hips 23 and 24) is absent or has visibility at most 0.5, \<open>extractMeasurements\<close>
  returns an invalid measurement with confidence 0. When all five are present with
  visibility above 0.5, it returns a valid measurement whose confidence is the sum of the
  five visibilities, added in that order from 0, divided by 5, in the arithmetic \<open>a\<close>: in
  exact arithmetic the arithmetic mean of the five visibilities, in binary64 arithmetic
  that computation with each addition and the division rounded.
\<close>

theorem frame_adapter_validity:
  "(let m = extractMeasurements a landmarks imgSize
    in ((\<exists>i \<in> set [0, 11, 12, 23, 24].
            landmarkAt landmarks i = None
            \<or> (\<exists>p. landmarkAt landmarks i = Some p \<and> visibility p \<le> 1 / 2))
          \<longrightarrow> \<not> isValid m \<and> confidence m = 0 \<and> readings m = None)
       \<and> (landmarkAt landmarks 0 = Some nose \<and> 1 / 2 < visibility nose
            \<and> landmarkAt landmarks 11 = Some leftShoulder \<and> 1 / 2 < visibility leftShoulder
            \<and> landmarkAt landmarks 12 = Some rightShoulder \<and> 1 / 2 < visibility rightShoulder
            \<and> landmarkAt landmarks 23 = Some leftHip \<and> 1 / 2 < visibility leftHip
            \<and> landmarkAt landmarks 24 = Some rightHip \<and> 1 / 2 < visibility rightHip
          \<longrightarrow> isValid m
              \<and> confidence m
                  = rnd a (rnd a (rnd a (rnd a (rnd a (rnd a (0 + visibility nose)
                      + visibility leftShoulder) + visibility rightShoulder)
                      + visibility leftHip) + visibility rightHip) / 5)
              \<and> confidence (extractMeasurements Exact landmarks imgSize)
                  = (visibility nose + visibility leftShoulder + visibility rightShoulder
                       + visibility leftHip + visibility rightHip) / 5
              \<and> readings m \<noteq> None))"
proof -
  have invalid: "\<not> isValid (extractMeasurements a landmarks imgSize)
       \<and> confidence (extractMeasurements a landmarks imgSize) = 0
       \<and> readings (extractMeasurements a landmarks imgSize) = None"
    if "\<exists>i \<in> set [0, 11, 12, 23, 24]. \<not> isVisible (landmarkAt landmarks i)"
    using that by (auto simp add: extractMeasurements_def invalidMeasurements_def)
  have valid: "isValid (extractMeasurements b landmarks imgSize)
       \<and> confidence (extractMeasurements b landmarks imgSize)
           = rnd b (rnd b (rnd b (rnd b (rnd b (rnd b (0 + visibility nose)
                      + visibility leftShoulder) + visibility rightShoulder)
                      + visibility leftHip) + visibility rightHip) / 5)
       \<and> readings (extractMeasurements b landmarks imgSize) \<noteq> None"
    if "landmarkAt landmarks 0 = Some nose" "1 / 2 < visibility nose"
       "landmarkAt landmarks 11 = Some leftShoulder" "1 / 2 < visibility leftShoulder"
       "landmarkAt landmarks 12 = Some rightShoulder" "1 / 2 < visibility rightShoulder"
       "landmarkAt landmarks 23 = Some leftHip" "1 / 2 < visibility leftHip"
       "landmarkAt landmarks 24 = Some rightHip" "1 / 2 < visibility rightHip"
    for b
    using that by (simp add: extractMeasurements_def isVisible_def Let_def)
  have exact: "confidence (extractMeasurements Exact landmarks imgSize)
           = (visibility nose + visibility leftShoulder + visibility rightShoulder
                       + visibility leftHip + visibility rightHip) / 5"
    if "landmarkAt landmarks 0 = Some nose" "1 / 2 < visibility nose"
       "landmarkAt landmarks 11 = Some leftShoulder" "1 / 2 < visibility leftShoulder"
       "landmarkAt landmarks 12 = Some rightShoulder" "1 / 2 < visibility rightShoulder"
       "landmarkAt landmarks 23 = Some leftHip" "1 / 2 < visibility leftHip"
       "landmarkAt landmarks 24 = Some rightHip" "1 / 2 < visibility rightHip"
    using valid [OF that, of Exact] by simp
  show ?thesis
    unfolding Let_def landmark_cases using invalid valid [of a] exact by blast
qed

theorem frame_adapter_validity_witness:
  "landmarkAt [] 0 = None
   \<and> \<not> isValid (extractMeasurements Binary64 [] \<lparr>width = 640, height = 480\<rparr>)
   \<and> confidence (extractMeasurements Binary64 [] \<lparr>width = 640, height = 480\<rparr>) = 0
   \<and> isValid (extractMeasurements Binary64
        (map (\<lambda>i. Some \<lparr>lm_x = 1 / 2, lm_y = real i / 50,
                 visibility = (if i = 11 then 5 / 8 else if i = 12 then 7 / 8
                               else if i = 23 then 1 else 3 / 4)\<rparr>)
           [0 ..< 33])
        \<lparr>width = 640, height = 480\<rparr>)
   \<and> confidence (extractMeasurements Binary64
        (map (\<lambda>i. Some \<lparr>lm_x = 1 / 2, lm_y = real i / 50,
                 visibility = (if i = 11 then 5 / 8 else if i = 12 then 7 / 8
                               else if i = 23 then 1 else 3 / 4)\<rparr>)
           [0 ..< 33])
        \<lparr>width = 640, height = 480\<rparr>) = 3602879701896397 / 4503599627370496
   \<and> confidence (extractMeasurements Exact
        (map (\<lambda>i. Some \<lparr>lm_x = 1 / 2, lm_y = real i / 50,
                 visibility = (if i = 11 then 5 / 8 else if i = 12 then 7 / 8
                               else if i = 23 then 1 else 3 / 4)\<rparr>)
           [0 ..< 33])
        \<lparr>width = 640, height = 480\<rparr>) = 4 / 5"
proof -
  let ?p = "\<lambda>i::nat. \<lparr>lm_x = 1 / 2, lm_y = real i / 50,
                 visibility = (if i = 11 then 5 / 8 else if i = 12 then 7 / 8
                               else if i = 23 then 1 else 3 / 4)\<rparr>"
  let ?ls = "map (\<lambda>i. Some (?p i)) [0 ..< 33]"
  have absent: "landmarkAt [] 0 = None" by (simp add: landmarkAt_def)
  have present: "landmarkAt ?ls 0 = Some (?p 0)" "landmarkAt ?ls 11 = Some (?p 11)"
    "landmarkAt ?ls 12 = Some (?p 12)" "landmarkAt ?ls 23 = Some (?p 23)"
    "landmarkAt ?ls 24 = Some (?p 24)"
    by (simp_all add: landmarkAt_def)
  have sum: "rnd Binary64 (rnd Binary64 (rnd Binary64 (rnd Binary64 (rnd Binary64
               (rnd Binary64 (0 + 3 / 4) + 5 / 8) + 7 / 8) + 1) + 3 / 4) / 5)
             = 3602879701896397 / 4503599627370496"
    by (simp add: b64_eval)
  show ?thesis
    using absent present sum
      frame_adapter_validity [of Binary64 "[]" "\<lparr>width = 640, height = 480\<rparr>"]
      frame_adapter_validity [of Binary64 ?ls "\<lparr>width = 640, height = 480\<rparr>"
        "?p 0" "?p 11" "?p 12" "?p 23" "?p 24"]
    by (simp add: Let_def)
qed

text \<open>
  Claim C8 as it is stated fails in binary64 arithmetic: five visibilities of \<open>0.81\<close>
  (the binary64 value nearest to 81 hundredths) give the confidence
  \<open>0.8100000000000002\<close>, which is not their arithmetic mean \<open>0.81\<close>.
\<close>

theorem confidence_rounded:
  "isValid (extractMeasurements Binary64
      (replicate 33 (Some \<lparr>lm_x = 1 / 2, lm_y = 1 / 2,
         visibility = 1823957849085051 / 2251799813685248\<rparr>))
      \<lparr>width = 640, height = 480\<rparr>)
   \<and> confidence (extractMeasurements Binary64
      (replicate 33 (Some \<lparr>lm_x = 1 / 2, lm_y = 1 / 2,
         visibility = 1823957849085051 / 2251799813685248\<rparr>))
      \<lparr>width = 640, height = 480\<rparr>) = 7295831396340205 / 9007199254740992
   \<and> (7295831396340205 / 9007199254740992 :: real)
       \<noteq> (1823957849085051 / 2251799813685248 + 1823957849085051 / 2251799813685248
            + 1823957849085051 / 2251799813685248 + 1823957849085051 / 2251799813685248
            + 1823957849085051 / 2251799813685248) / 5
   \<and> b64 (81 / 100) = 1823957849085051 / 2251799813685248"
proof -
  let ?p = "\<lparr>lm_x = 1 / 2, lm_y = 1 / 2, visibility = 1823957849085051 / 2251799813685248\<rparr>"
  have at: "landmarkAt (replicate 33 (Some ?p)) 0 = Some ?p"
    "landmarkAt (replicate 33 (Some ?p)) 11 = Some ?p"
    "landmarkAt (replicate 33 (Some ?p)) 12 = Some ?p"
    "landmarkAt (replicate 33 (Some ?p)) 23 = Some ?p"
    "landmarkAt (replicate 33 (Some ?p)) 24 = Some ?p"
    by (simp_all add: landmarkAt_def)
  have sum: "b64 (b64 (b64 (b64 (b64 (b64 (0 + 1823957849085051 / 2251799813685248)
               + 1823957849085051 / 2251799813685248) + 1823957849085051 / 2251799813685248)
               + 1823957849085051 / 2251799813685248) + 1823957849085051 / 2251799813685248) / 5)
             = 7295831396340205 / 9007199254740992"
    by (simp add: b64_eval)
  have tenth: "b64 (81 / 100) = 1823957849085051 / 2251799813685248"
    by (simp add: b64_eval)
  show ?thesis
    using sum tenth
    by (simp add: extractMeasurements_def at isVisible_def Let_def)
qed

subsection \<open>The smoothing windows\<close>

lemma keepRecent_sliceLast:
  assumes "length w \<le> 10"
  shows "keepRecent (w @ [v]) = sliceLast 10 (w @ [v])"
proof (cases "length w = 10")
  case True
  then have "w \<noteq> []" by auto
  with True show ?thesis
    by (simp add: keepRecent_def sliceLast_def smoothingWindow_def drop_Suc)
next
  case False
  with assms show ?thesis
    by (simp add: keepRecent_def sliceLast_def smoothingWindow_def)
qed

lemma length_sliceLast: "length (sliceLast n xs) = min n (length xs)"
  by (simp add: sliceLast_def)

lemma sliceLast_step:
  "sliceLast n (sliceLast n xs @ ys) = sliceLast n (xs @ ys)"
proof (cases "length xs \<le> n")
  case True
  then show ?thesis by (simp add: sliceLast_def)
next
  case False
  define k where "k = length xs - n"
  have len: "length (drop k xs) = n" using False by (simp add: k_def)
  have "sliceLast n (drop k xs @ ys) = drop (length ys) (drop k xs @ ys)"
    using len by (simp add: sliceLast_def)
  also have "drop k xs @ ys = drop k (xs @ ys)" using False by (simp add: k_def)
  also have "drop (length ys) (drop k (xs @ ys)) = drop (length ys + k) (xs @ ys)"
    by (rule drop_drop)
  also have "length ys + k = length (xs @ ys) - n" using False by (simp add: k_def)
  finally show ?thesis by (simp add: sliceLast_def k_def)
qed

lemma window_applySmoothingFilter:
  "window c (snd (applySmoothingFilter a m pa)) = keepRecent (window c pa @ [channelValue c m])"
  by (cases c) (simp_all add: applySmoothingFilter_def Let_def)

lemma smoothed_applySmoothingFilter:
  "channelValue c (fst (applySmoothingFilter a m pa))
     = calculateMovingAverage a (keepRecent (window c pa @ [channelValue c m]))"
  by (cases c) (simp_all add: applySmoothingFilter_def Let_def)

lemma window_feedFrames:
  "length (window c pa) \<le> 10 \<Longrightarrow>
     window c (feedFrames a ms pa) = sliceLast 10 (window c pa @ map (channelValue c) ms)"
proof (induction ms arbitrary: pa)
  case Nil
  then show ?case by (simp add: feedFrames_def sliceLast_def)
next
  case (Cons m ms)
  let ?pa = "snd (applySmoothingFilter a m pa)"
  have w: "window c ?pa = sliceLast 10 (window c pa @ [channelValue c m])"
    using Cons.prems by (simp add: window_applySmoothingFilter keepRecent_sliceLast)
  then have "length (window c ?pa) \<le> 10" by (simp add: length_sliceLast)
  then have "window c (feedFrames a ms ?pa)
               = sliceLast 10 (window c ?pa @ map (channelValue c) ms)"
    by (rule Cons.IH)
  also have "\<dots> = sliceLast 10 ((window c pa @ [channelValue c m]) @ map (channelValue c) ms)"
    unfolding w by (rule sliceLast_step)
  finally show ?case by (simp add: feedFrames_def)
qed

lemma window_resetSmoothing: "window c (resetSmoothing pa) = []"
  by (cases c) (simp_all add: resetSmoothing_def emptyMeasurements_def)

lemma window_after_reset:
  "window c (feedFrames a ms (resetSmoothing pa)) = sliceLast 10 (map (channelValue c) ms)"
  by (simp add: window_feedFrames window_resetSmoothing)

lemma sliceLast_constant_tail:
  assumes "n \<le> length ys" "\<forall>y \<in> set ys. y = V"
  shows "sliceLast n (xs @ ys) = replicate n V"
proof -
  have ys: "ys = replicate (length ys) V"
    using assms(2) by (simp add: replicate_length_same)
  have "sliceLast n (xs @ ys) = drop (length ys - n) ys"
    using assms(1) by (simp add: sliceLast_def)
  also have "\<dots> = drop (length ys - n) (replicate (length ys) V)" using ys by simp
  also have "\<dots> = replicate n V" using assms(1) by simp
  finally show ?thesis .
qed

lemma foldl_add_replicate:
  "foldl (\<lambda>sum v. sum + v) z (replicate n (V::real)) = z + real n * V"
  by (induction n arbitrary: z) (simp_all add: algebra_simps)

lemma exact_average_constant:
  "0 < n \<Longrightarrow> calculateMovingAverage Exact (replicate n V) = V"
  by (simp add: calculateMovingAverage_def foldl_add_replicate)

lemma lastSmoothed_window:
  assumes "ms \<noteq> []"
  shows "map_option (channelValue c) (lastSmoothed a ms (resetSmoothing pa))
           = Some (calculateMovingAverage a (window c (feedFrames a ms (resetSmoothing pa))))"
proof -
  from assms have ms: "ms = butlast ms @ [last ms]" by simp
  have "feedFrames a ms (resetSmoothing pa)
          = snd (applySmoothingFilter a (last ms) (feedFrames a (butlast ms) (resetSmoothing pa)))"
    by (subst ms) (simp add: feedFrames_def)
  then show ?thesis
    using assms
    by (simp add: lastSmoothed_def smoothed_applySmoothingFilter window_applySmoothingFilter)
qed

lemma new_is_reset: "resetSmoothing (newPostureAnalysis now) = newPostureAnalysis now"
  by (simp add: resetSmoothing_def newPostureAnalysis_def)

text \<open>
  The sum of \<open>n\<close> copies of \<open>V\<close> is computed without a rounding error when the
  multiples of \<open>V\<close> up to \<open>n\<close> are numbers of the arithmetic; the mean is then \<open>V\<close>.
\<close>

lemma rounded_sum_replicate:
  assumes "\<forall>k \<in> {1..n}. rnd a (real k * V) = real k * V"
  shows "foldl (\<lambda>sum v. rnd a (sum + v)) 0 (replicate n V) = real n * V"
  using assms
proof (induction n)
  case 0
  then show ?case by simp
next
  case (Suc n)
  have "\<forall>k \<in> {1..n}. rnd a (real k * V) = real k * V" using Suc.prems by simp
  then have IH: "foldl (\<lambda>sum v. rnd a (sum + v)) 0 (replicate n V) = real n * V"
    by (rule Suc.IH)
  have "Suc n \<in> {1..Suc n}" by simp
  with Suc.prems have last: "rnd a (real (Suc n) * V) = real (Suc n) * V" by blast
  have r: "replicate (Suc n) V = replicate n V @ [V]" by (simp add: replicate_append_same)
  have "foldl (\<lambda>sum v. rnd a (sum + v)) 0 (replicate (Suc n) V)
          = rnd a (foldl (\<lambda>sum v. rnd a (sum + v)) 0 (replicate n V) + V)"
    unfolding r by simp
  also have "\<dots> = rnd a (real (Suc n) * V)" by (simp add: IH algebra_simps)
  finally show ?case using last by simp
qed

lemma average_constant:
  assumes "0 < n" and "\<forall>k \<in> {1..n}. rnd a (real k * V) = real k * V"
  shows "calculateMovingAverage a (replicate n V) = V"
proof -
  have "1 \<in> {1..n}" using assms(1) by simp
  with assms(2) have "rnd a (real 1 * V) = real 1 * V" by blast
  then have "rnd a V = V" by simp
  then show ?thesis
    using assms(1) by (simp add: calculateMovingAverage_def rounded_sum_replicate [OF assms(2)])
qed

text \<open>
  Evaluating the rounding: one tenth rounds to the binary64 value written \<open>0.1\<close>, and the
  moving average of ten copies of it is the value written \<open>0.09999999999999999\<close>.
\<close>

lemma b64_tenth: "b64 (1 / 10) = 3602879701896397 / 36028797018963968"
  by (simp add: b64_eval)

lemma binary64_average_tenth:
  "calculateMovingAverage Binary64 (replicate 10 (3602879701896397 / 36028797018963968))
     = 7205759403792793 / 72057594037927936"
  by (simp add: calculateMovingAverage_def numeral_eq_Suc b64_eval)

text \<open>
  Claim C5, as amended. Starting from empty windows (the constructor or \<open>resetSmoothing\<close>),
  after every sequence \<open>ms\<close> of valid frames the window of each channel \<open>c\<close> holds at most
  10 values, the most recent ones in their order. After 15 further frames whose raw value
  on the channel is the constant \<open>V\<close>, the window is ten copies of \<open>V\<close>, and the mean
  emitted for the last frame is the moving average of ten copies of \<open>V\<close> in the arithmetic
  \<open>a\<close>. In exact arithmetic that mean is \<open>V\<close>; in binary64 arithmetic it is \<open>V\<close> when
  the multiples of \<open>V\<close> up to \<open>10 V\<close> are binary64 numbers.
\<close>

theorem smoothing_window_bounded:
  assumes "length fs = 15" and "\<forall>f \<in> set fs. channelValue c f = V"
  shows "length (window c (feedFrames a ms (resetSmoothing pa))) \<le> 10
       \<and> window c (feedFrames a ms (resetSmoothing pa)) = sliceLast 10 (map (channelValue c) ms)
       \<and> window c (feedFrames a (ms @ fs) (resetSmoothing pa)) = replicate 10 V
       \<and> map_option (channelValue c) (lastSmoothed a (ms @ fs) (resetSmoothing pa))
           = Some (calculateMovingAverage a (replicate 10 V))
       \<and> map_option (channelValue c) (lastSmoothed Exact (ms @ fs) (resetSmoothing pa)) = Some V
       \<and> ((\<forall>k \<in> {1..10}. rnd a (real k * V) = real k * V) \<longrightarrow>
            map_option (channelValue c) (lastSmoothed a (ms @ fs) (resetSmoothing pa)) = Some V)"
proof -
  have bound: "length (window c (feedFrames a ms (resetSmoothing pa))) \<le> 10"
    by (simp add: window_after_reset length_sliceLast)
  have tail: "\<forall>y \<in> set (map (channelValue c) fs). y = V" using assms(2) by simp
  have win: "window c (feedFrames b (ms @ fs) (resetSmoothing pa)) = replicate 10 V" for b
    using sliceLast_constant_tail [of 10 "map (channelValue c) fs" V "map (channelValue c) ms"]
      assms(1) tail
    by (simp add: window_after_reset)
  have ne: "ms @ fs \<noteq> []" using assms(1) by auto
  have emitted: "map_option (channelValue c) (lastSmoothed b (ms @ fs) (resetSmoothing pa))
           = Some (calculateMovingAverage b (replicate 10 V))" for b
    using lastSmoothed_window [OF ne, of c b pa] by (simp only: win)
  have rounded: "calculateMovingAverage a (replicate 10 V) = V"
    if "\<forall>k \<in> {1..10}. rnd a (real k * V) = real k * V"
    using that by (intro average_constant) simp_all
  have exact: "map_option (channelValue c) (lastSmoothed Exact (ms @ fs) (resetSmoothing pa))
           = Some V"
    using emitted [of Exact] by (simp only: exact_average_constant [of 10 V, simplified])
  have binary: "map_option (channelValue c) (lastSmoothed a (ms @ fs) (resetSmoothing pa))
           = Some V"
    if "\<forall>k \<in> {1..10}. rnd a (real k * V) = real k * V"
    using emitted [of a] rounded [OF that] by (simp only:)
  show ?thesis
    using bound window_after_reset [of c a ms pa] win [of a] emitted [of a] exact binary
    by blast
qed

theorem smoothing_window_bounded_witness:
  "length (replicate 15 \<lparr>neckAngle = 12, torsoAngle = 90,
       shoulderData = \<lparr>asymmetry = 3, leftHeight = 0, rightHeight = 0, forwardProjection = 0\<rparr>\<rparr>) = 15
   \<and> window Neck
         (feedFrames Binary64
            ([] @ replicate 15 \<lparr>neckAngle = 12, torsoAngle = 90,
               shoulderData = \<lparr>asymmetry = 3, leftHeight = 0, rightHeight = 0,
                 forwardProjection = 0\<rparr>\<rparr>)
            (resetSmoothing (newPostureAnalysis 0))) = replicate 10 12
   \<and> map_option (channelValue Neck)
         (lastSmoothed Binary64
            ([] @ replicate 15 \<lparr>neckAngle = 12, torsoAngle = 90,
               shoulderData = \<lparr>asymmetry = 3, leftHeight = 0, rightHeight = 0,
                 forwardProjection = 0\<rparr>\<rparr>)
            (resetSmoothing (newPostureAnalysis 0))) = Some 12"
proof -
  let ?f = "\<lparr>neckAngle = 12, torsoAngle = 90,
       shoulderData = \<lparr>asymmetry = 3, leftHeight = 0, rightHeight = 0, forwardProjection = 0\<rparr>\<rparr>"
  have len: "length (replicate 15 ?f) = 15" by simp
  have const: "\<forall>f \<in> set (replicate 15 ?f). channelValue Neck f = 12" by simp
  have multiples: "\<forall>k \<in> {1..10}. rnd Binary64 (real k * 12) = real k * 12"
  proof
    fix k :: nat
    assume "k \<in> {1..10}"
    then have "k = 1 \<or> k = 2 \<or> k = 3 \<or> k = 4 \<or> k = 5 \<or> k = 6 \<or> k = 7 \<or> k = 8
        \<or> k = 9 \<or> k = 10"
      by simp arith
    then show "rnd Binary64 (real k * 12) = real k * 12"
      by (elim disjE) (simp_all add: b64_eval)
  qed
  show ?thesis
    using len multiples
      smoothing_window_bounded [OF len const, of Binary64 "[]" "newPostureAnalysis 0"]
    by blast
qed

text \<open>
  Claim C5 as it is stated fails in binary64 arithmetic, where the mean of a constant
  window need not be the constant: fifteen frames with the neck angle \<open>0.1\<close> emit
  \<open>0.09999999999999999\<close>. The sum of the ten copies in the window is rounded after each
  addition.
\<close>

theorem binary64_mean_differs:
  "map_option (channelValue Neck)
     (lastSmoothed Binary64
        (replicate 15 \<lparr>neckAngle = 3602879701896397 / 36028797018963968, torsoAngle = 90,
           shoulderData = \<lparr>asymmetry = 0, leftHeight = 0, rightHeight = 0,
             forwardProjection = 0\<rparr>\<rparr>)
        (newPostureAnalysis 0))
     = Some (7205759403792793 / 72057594037927936)
   \<and> (7205759403792793 / 72057594037927936 :: real) \<noteq> 3602879701896397 / 36028797018963968
   \<and> b64 (3602879701896397 / 36028797018963968) = 3602879701896397 / 36028797018963968"
proof -
  let ?f = "\<lparr>neckAngle = 3602879701896397 / 36028797018963968, torsoAngle = 90,
           shoulderData = \<lparr>asymmetry = 0, leftHeight = 0, rightHeight = 0,
             forwardProjection = 0\<rparr>\<rparr>"
  have ne: "replicate 15 ?f \<noteq> []" by simp
  have "window Neck (feedFrames Binary64 (replicate 15 ?f) (resetSmoothing (newPostureAnalysis 0)))
          = replicate 10 (3602879701896397 / 36028797018963968)"
    using sliceLast_constant_tail [of 10 "map (channelValue Neck) (replicate 15 ?f)"
        "3602879701896397 / 36028797018963968" "[]"]
    by (simp add: window_after_reset)
  then have "map_option (channelValue Neck)
     (lastSmoothed Binary64 (replicate 15 ?f) (resetSmoothing (newPostureAnalysis 0)))
     = Some (7205759403792793 / 72057594037927936)"
    using lastSmoothed_window [OF ne, of Neck Binary64 "newPostureAnalysis 0"]
    by (simp only: binary64_average_tenth)
  moreover have "b64 (3602879701896397 / 36028797018963968)
                   = 3602879701896397 / 36028797018963968"
    by (simp add: b64_eval)
  ultimately show ?thesis by (simp add: new_is_reset)
qed

text \<open>
  Claim C10. After \<open>resetSmoothing\<close> the three windows are empty, and for the next valid
  frame \<open>m\<close> the smoothed value of every channel \<open>c\<close> is the raw value of the frame: the
  moving average of a window of one value is that value. This holds in exact and in
  binary64 arithmetic, the raw value being a number of the arithmetic.
\<close>

theorem first_frame_after_reset:
  assumes "rnd a (channelValue c m) = channelValue c m"
  shows "recentMeasurements (resetSmoothing pa) = \<lparr>neck = [], torso = [], shoulders = []\<rparr>
       \<and> window c (resetSmoothing pa) = []
       \<and> channelValue c (fst (applySmoothingFilter a m (resetSmoothing pa))) = channelValue c m"
proof -
  have avg: "calculateMovingAverage a [channelValue c m] = channelValue c m"
    using assms by (cases a) (simp_all add: calculateMovingAverage_def)
  have "channelValue c (fst (applySmoothingFilter a m (resetSmoothing pa)))
          = calculateMovingAverage a [channelValue c m]"
    by (simp add: smoothed_applySmoothingFilter window_resetSmoothing keepRecent_def
        smoothingWindow_def)
  with avg show ?thesis
    by (simp add: window_resetSmoothing) (simp add: resetSmoothing_def emptyMeasurements_def)
qed

theorem first_frame_after_reset_witness:
  "rnd Binary64 (channelValue Neck \<lparr>neckAngle = 25 / 2, torsoAngle = 90,
       shoulderData = \<lparr>asymmetry = 3, leftHeight = 0, rightHeight = 0, forwardProjection = 0\<rparr>\<rparr>)
     = 25 / 2
   \<and> channelValue Neck (fst (applySmoothingFilter Binary64
        \<lparr>neckAngle = 25 / 2, torsoAngle = 90,
          shoulderData = \<lparr>asymmetry = 3, leftHeight = 0, rightHeight = 0, forwardProjection = 0\<rparr>\<rparr>
        (resetSmoothing (newPostureAnalysis 0)))) = 25 / 2"
proof -
  have h: "rnd Binary64 (channelValue Neck \<lparr>neckAngle = 25 / 2, torsoAngle = 90,
       shoulderData = \<lparr>asymmetry = 3, leftHeight = 0, rightHeight = 0, forwardProjection = 0\<rparr>\<rparr>)
     = channelValue Neck \<lparr>neckAngle = 25 / 2, torsoAngle = 90,
       shoulderData = \<lparr>asymmetry = 3, leftHeight = 0, rightHeight = 0, forwardProjection = 0\<rparr>\<rparr>"
    by (simp add: b64_eval)
  show ?thesis
    using h first_frame_after_reset [OF h, of "newPostureAnalysis 0"] by simp
qed

subsection \<open>The shoulder status\<close>

text \<open>
  The status never moves up the chain: it is at least as severe after each check as
  before it, and after the asymmetry check it is the severity of that check. After the
  forward projection check it is at least the severity of both checks, except when a
  moderate asymmetry (above 5, at most 10) meets a slight rounding (above 15, at most 20).
\<close>

lemma shoulder_status_chain:
  "(let r0 = \<lparr>score = 100, status = Excellent, issues = [], angle = asymmetry sd\<rparr>;
        r1 = checkShoulderAsymmetry sd r0;
        r2 = checkForwardProjection sd r1
    in severity (status r0) \<le> severity (status r1)
       \<and> severity (status r1) \<le> severity (status r2)
       \<and> status r2 \<noteq> Unknown
       \<and> status r1 = asymmetrySeverity sd
       \<and> r2 = analyzeShoulderPosture sd)"
  by (simp add: Let_def checkShoulderAsymmetry_def checkForwardProjection_def
      asymmetrySeverity_def analyzeShoulderPosture_def)

lemma shoulder_status_meets_severity_unless_slight:
  "\<not> (5 < asymmetry sd \<and> asymmetry sd \<le> 10 \<and> 15 < forwardProjection sd
        \<and> forwardProjection sd \<le> 20) \<Longrightarrow>
   severity (forwardSeverity sd) \<le> severity (status (analyzeShoulderPosture sd))
   \<and> severity (asymmetrySeverity sd) \<le> severity (status (analyzeShoulderPosture sd))"
  by (auto simp add: Let_def checkShoulderAsymmetry_def checkForwardProjection_def
      asymmetrySeverity_def forwardSeverity_def analyzeShoulderPosture_def)

text \<open>
  Claim C3 fails on the code. With asymmetry 7 and forward projection 17 the asymmetry
  check sets the status to good, and the forward projection check, whose issue
  \<open>Slight shoulder rounding\<close> has the severity warning, leaves it at good: its guard lets
  only an excellent status move to warning.
\<close>

theorem shoulder_status_below_severity:
  "analyzeShoulderPosture
     \<lparr>asymmetry = 7, leftHeight = 0, rightHeight = 0, forwardProjection = 17\<rparr>
     = \<lparr>score = 65, status = Good, issues = [''Slight shoulder rounding''], angle = 7\<rparr>
   \<and> forwardSeverity \<lparr>asymmetry = 7, leftHeight = 0, rightHeight = 0, forwardProjection = 17\<rparr>
       = Warning
   \<and> severity Good < severity Warning
   \<and> status (checkForwardProjection
        \<lparr>asymmetry = 7, leftHeight = 0, rightHeight = 0, forwardProjection = 17\<rparr>
        \<lparr>score = 100, status = Excellent, issues = [], angle = 7\<rparr>) = Warning"
  by (simp add: analyzeShoulderPosture_def checkShoulderAsymmetry_def
      checkForwardProjection_def forwardSeverity_def)

section \<open>Properties of the session aggregator\<close>

subsection \<open>The good and poor states\<close>

text \<open>
  Claim C4 as it is stated fails on the code. With the default settings a torso angle of
  100 degrees is above \<open>torsoThresholdMax\<close>, which is 95, and the frame is classified
  good.
\<close>

theorem torso_upper_bound_not_max:
  "\<not> (classifyPosture defaultSettings 0 100 = GoodPosture
        \<longleftrightarrow> 0 \<le> neckThreshold defaultSettings
            \<and> torsoThresholdMin defaultSettings \<le> 100
            \<and> 100 \<le> torsoThresholdMax defaultSettings)"
  by (simp add: classifyPosture_def defaultSettings_def)

lemma last_sliceLast: "0 < n \<Longrightarrow> xs \<noteq> [] \<Longrightarrow> last (sliceLast n xs) = last xs"
  by (simp add: sliceLast_def)

lemma updateSessionData_last:
  "h_state (last (postureHistory (sessionData (updateSessionData now s g)))) = s"
  by (simp add: updateSessionData_def Let_def last_sliceLast split: option.splits)

lemma updateSessionData_settings: "settings (updateSessionData now s g) = settings g"
  by (simp add: updateSessionData_def Let_def)

lemma handlePostureChange_history:
  "postureHistory (sessionData (handlePostureChange s g)) = postureHistory (sessionData g)"
  by (simp add: handlePostureChange_def)

text \<open>
  Claim C4, as amended. For every frame that \<open>analyzePosture\<close> processes, the state it
  records, in the session and in the history, is good exactly when the neck angle is at
  most \<open>neckThreshold\<close> and the torso angle lies between \<open>torsoThresholdMin\<close> and
  \<open>torsoThresholdMax + 15\<close>, and poor otherwise.
\<close>

theorem frame_classification:
  "(let g' = analyzePosture now neckDeg torsoDeg g;
        cfg = settings g;
        recorded = currentPostureState (sessionData g')
    in recorded = classifyPosture cfg neckDeg torsoDeg
       \<and> h_state (last (postureHistory (sessionData g'))) = recorded
       \<and> (recorded = GoodPosture
            \<longleftrightarrow> neckDeg \<le> neckThreshold cfg \<and> torsoThresholdMin cfg \<le> torsoDeg
                \<and> torsoDeg \<le> torsoThresholdMax cfg + 15)
       \<and> (recorded = PoorPosture
            \<longleftrightarrow> \<not> (neckDeg \<le> neckThreshold cfg \<and> torsoThresholdMin cfg \<le> torsoDeg
                   \<and> torsoDeg \<le> torsoThresholdMax cfg + 15)))"
  by (simp add: analyzePosture_def Let_def updateSessionData_last handlePostureChange_history
      classifyPosture_def)

subsection \<open>The history\<close>

lemma history_step:
  "postureHistory (sessionData (updateSessionData now s h))
     = (let pushed = postureHistory (sessionData h) @
                       [\<lparr>h_timestamp = now, h_state = s,
                         h_neckAngle = cur_neck (currentAngles h),
                         h_torsoAngle = cur_torso (currentAngles h)\<rparr>]
        in if 1000 < length pushed then sliceLast 500 pushed else pushed)"
  by (simp add: updateSessionData_def Let_def split: option.splits)

lemma angles_step: "currentAngles (updateSessionData now s h) = currentAngles h"
  by (simp add: updateSessionData_def Let_def)

lemma start_step: "sessionStartTime (updateSessionData now s h) = sessionStartTime h"
  by (simp add: updateSessionData_def Let_def)

lemma updateAll_snoc:
  "updateAll (frames @ [(now, s)]) h = updateSessionData now s (updateAll frames h)"
  by (simp add: updateAll_def)

lemma updateAll_Cons:
  "updateAll ((now, s) # frames) h = updateAll frames (updateSessionData now s h)"
  by (simp add: updateAll_def)

lemma angles_updateAll: "currentAngles (updateAll frames h) = currentAngles h"
  by (induction frames arbitrary: h) (auto simp add: updateAll_def angles_step)

lemma start_updateAll: "sessionStartTime (updateAll frames h) = sessionStartTime h"
  by (induction frames arbitrary: h) (auto simp add: updateAll_def start_step)

lemma history_bound_step:
  "length (postureHistory (sessionData h)) \<le> 1000 \<Longrightarrow>
     length (postureHistory (sessionData (updateSessionData now s h))) \<le> 1000"
  by (simp add: history_step Let_def sliceLast_def)

lemma history_bound_updateAll:
  "length (postureHistory (sessionData h)) \<le> 1000 \<Longrightarrow>
     length (postureHistory (sessionData (updateAll frames h))) \<le> 1000"
proof (induction frames arbitrary: h)
  case Nil
  then show ?case by (simp add: updateAll_def)
next
  case (Cons f frames)
  obtain now s where f: "f = (now, s)" by (cases f)
  show ?case
    unfolding f updateAll_Cons
    by (rule Cons.IH) (rule history_bound_step [OF Cons.prems])
qed

lemma history_prefix:
  "length (postureHistory (sessionData h)) + length frames \<le> 1000 \<Longrightarrow>
     postureHistory (sessionData (updateAll frames h))
       = postureHistory (sessionData h) @
           map (\<lambda>(now, s). \<lparr>h_timestamp = now, h_state = s,
                   h_neckAngle = cur_neck (currentAngles h),
                   h_torsoAngle = cur_torso (currentAngles h)\<rparr>) frames"
proof (induction frames rule: rev_induct)
  case Nil
  then show ?case by (simp add: updateAll_def)
next
  case (snoc f frames)
  obtain now s where f: "f = (now, s)" by (cases f)
  from snoc.prems have "length (postureHistory (sessionData h)) + length frames \<le> 1000"
    by simp
  then have IH: "postureHistory (sessionData (updateAll frames h))
       = postureHistory (sessionData h) @
           map (\<lambda>(now, s). \<lparr>h_timestamp = now, h_state = s,
                   h_neckAngle = cur_neck (currentAngles h),
                   h_torsoAngle = cur_torso (currentAngles h)\<rparr>) frames"
    by (rule snoc.IH)
  show ?case
    unfolding f updateAll_snoc history_step IH angles_updateAll
    using snoc.prems by (simp add: Let_def)
qed

lemma fresh_history: "postureHistory (sessionData (startMonitoring start g)) = []"
  by (simp add: startMonitoring_def freshSessionData_def)

lemma sliceLast_map: "sliceLast n (map f xs) = map f (sliceLast n xs)"
  by (simp add: sliceLast_def drop_map)

lemma history_after_1001:
  assumes "postureHistory (sessionData h) = []" and "length frames = 1001"
  shows "postureHistory (sessionData (updateAll frames h))
           = map (\<lambda>(now, s). \<lparr>h_timestamp = now, h_state = s,
                   h_neckAngle = cur_neck (currentAngles h),
                   h_torsoAngle = cur_torso (currentAngles h)\<rparr>) (sliceLast 500 frames)"
proof -
  let ?e = "\<lambda>(now, s). \<lparr>h_timestamp = now, h_state = s,
                   h_neckAngle = cur_neck (currentAngles h),
                   h_torsoAngle = cur_torso (currentAngles h)\<rparr>"
  from assms(2) have ne: "frames \<noteq> []" by auto
  define fs where "fs = butlast frames"
  obtain now s where l: "last frames = (now, s)" by (cases "last frames")
  have "frames = butlast frames @ [last frames]" using ne by simp
  then have frames: "frames = fs @ [(now, s)]" by (simp only: fs_def l)
  have len: "length fs = 1000" using assms(2) by (simp add: fs_def)
  have "postureHistory (sessionData (updateAll fs h)) = map ?e fs"
    using history_prefix [of h fs] assms(1) len by simp
  then have "postureHistory (sessionData (updateAll frames h))
               = sliceLast 500 (map ?e fs @ [?e (now, s)])"
    unfolding frames updateAll_snoc history_step angles_updateAll
    using len by (simp add: Let_def)
  also have "map ?e fs @ [?e (now, s)] = map ?e frames" by (simp add: frames)
  finally show ?thesis by (simp only: sliceLast_map)
qed

text \<open>
  Claim C6. In a session started by \<open>startMonitoring\<close>, after every sequence of appended
  samples the history holds at most 1000 entries; after 1001 samples it holds exactly the
  500 most recent ones. In any state, appending to a history of 1000 entries leaves the
  500 most recent of the 1001.
\<close>

theorem history_bounded:
  "length (postureHistory (sessionData (updateAll frames (startMonitoring start g)))) \<le> 1000
   \<and> (length frames = 1001 \<longrightarrow>
        (let history = postureHistory (sessionData (updateAll frames (startMonitoring start g)))
         in length history = 500
            \<and> map h_timestamp history = map fst (sliceLast 500 frames)
            \<and> map h_state history = map snd (sliceLast 500 frames)))
   \<and> (length (postureHistory (sessionData h)) = 1000 \<longrightarrow>
        postureHistory (sessionData (updateSessionData now s h))
          = sliceLast 500 (postureHistory (sessionData h) @
              [\<lparr>h_timestamp = now, h_state = s, h_neckAngle = cur_neck (currentAngles h),
                h_torsoAngle = cur_torso (currentAngles h)\<rparr>])
        \<and> length (postureHistory (sessionData (updateSessionData now s h))) = 500)"
proof -
  have a: "length (postureHistory (sessionData (updateAll frames (startMonitoring start g))))
             \<le> 1000"
    by (rule history_bound_updateAll) (simp add: fresh_history)
  have b: "length history = 500
            \<and> map h_timestamp history = map fst (sliceLast 500 frames)
            \<and> map h_state history = map snd (sliceLast 500 frames)"
    if "length frames = 1001"
      and "history = postureHistory (sessionData (updateAll frames (startMonitoring start g)))"
    for history
    using history_after_1001 [OF fresh_history that(1), of start g] that
    by (simp add: sliceLast_def comp_def case_prod_unfold)
  have c: "postureHistory (sessionData (updateSessionData now s h))
          = sliceLast 500 (postureHistory (sessionData h) @
              [\<lparr>h_timestamp = now, h_state = s, h_neckAngle = cur_neck (currentAngles h),
                h_torsoAngle = cur_torso (currentAngles h)\<rparr>])
        \<and> length (postureHistory (sessionData (updateSessionData now s h))) = 500"
    if "length (postureHistory (sessionData h)) = 1000"
    using that by (simp add: history_step Let_def sliceLast_def)
  show ?thesis unfolding Let_def using a b c by blast
qed

theorem history_bounded_witness:
  "length (replicate 1001 (5 :: int, GoodPosture)) = 1001
   \<and> length (postureHistory (sessionData
        (updateAll (replicate 1001 (5, GoodPosture)) (startMonitoring 1 newGuardian)))) = 500
   \<and> length (postureHistory (sessionData
        (updateSessionData 5 PoorPosture
           (newGuardian\<lparr>sessionData := freshSessionData\<lparr>postureHistory :=
              replicate 1000 \<lparr>h_timestamp = 0, h_state = GoodPosture, h_neckAngle = 0,
                h_torsoAngle = 90\<rparr>\<rparr>\<rparr>)))) = 500"
  using history_bounded [of "replicate 1001 (5, GoodPosture)" 1 newGuardian
      "newGuardian\<lparr>sessionData := freshSessionData\<lparr>postureHistory :=
              replicate 1000 \<lparr>h_timestamp = 0, h_state = GoodPosture, h_neckAngle = 0,
                h_torsoAngle = 90\<rparr>\<rparr>\<rparr>" 5 PoorPosture]
  by (simp add: Let_def length_sliceLast)

subsection \<open>The good posture time\<close>

lemma good_time_step:
  "started (sessionStartTime h) \<Longrightarrow>
     goodPostureTime (sessionData (updateSessionData now s h))
       = goodPostureTime (sessionData h) + (if s = GoodPosture then 100 else 0)"
  by (auto simp add: updateSessionData_def Let_def started_def split: option.splits)

lemma total_time_step:
  "sessionStartTime h = Some start \<Longrightarrow> start \<noteq> 0 \<Longrightarrow>
     totalTime (sessionData (updateSessionData now s h)) = now - start"
  by (auto simp add: updateSessionData_def Let_def started_def split: option.splits)

lemma good_time_updateAll:
  "started (sessionStartTime h) \<Longrightarrow>
     goodPostureTime (sessionData (updateAll frames h))
       = goodPostureTime (sessionData h)
           + 100 * int (length (filter (\<lambda>f. snd f = GoodPosture) frames))"
proof (induction frames rule: rev_induct)
  case Nil
  then show ?case by (simp add: updateAll_def)
next
  case (snoc f frames)
  obtain now s where f: "f = (now, s)" by (cases f)
  have "started (sessionStartTime (updateAll frames h))"
    using snoc.prems by (simp add: start_updateAll)
  then show ?case
    unfolding f updateAll_snoc using snoc.IH [OF snoc.prems]
    by (simp add: good_time_step)
qed

text \<open>
  Claim C9. In a session started by \<open>startMonitoring\<close> (the clock not reading zero, which
  the test of \<open>sessionStartTime\<close> takes for no session), after any frames the good posture
  time is 100 milliseconds times the number of good frames, whatever their clock
  readings; a further good frame adds exactly 100 and a poor frame adds nothing, while the
  total time is the clock reading minus the start. A good frame in the millisecond of the
  start gives a good posture time of 100 against a total time of 0.
\<close>

theorem good_posture_time_fixed_increment:
  assumes "start \<noteq> 0"
  shows "(let g0 = startMonitoring start g; h = updateAll frames g0
          in goodPostureTime (sessionData h)
               = 100 * int (length (filter (\<lambda>f. snd f = GoodPosture) frames))
             \<and> goodPostureTime (sessionData (updateSessionData now GoodPosture h))
                 = goodPostureTime (sessionData h) + 100
             \<and> goodPostureTime (sessionData (updateSessionData now PoorPosture h))
                 = goodPostureTime (sessionData h)
             \<and> totalTime (sessionData (updateSessionData now postureState h)) = now - start
             \<and> totalTime (sessionData (updateAll [(start, GoodPosture)] g0)) = 0
             \<and> goodPostureTime (sessionData (updateAll [(start, GoodPosture)] g0)) = 100)"
proof -
  let ?g0 = "startMonitoring start g"
  have st: "sessionStartTime ?g0 = Some start" by (simp add: startMonitoring_def)
  with assms have run: "started (sessionStartTime ?g0)" by (simp add: started_def)
  have zero: "goodPostureTime (sessionData ?g0) = 0"
    by (simp add: startMonitoring_def freshSessionData_def)
  have runh: "started (sessionStartTime (updateAll frames ?g0))"
    using run by (simp add: start_updateAll)
  have sth: "sessionStartTime (updateAll frames ?g0) = Some start"
    using st by (simp add: start_updateAll)
  show ?thesis
    using good_time_updateAll [OF run, of frames] good_time_updateAll [OF run, of "[(start, GoodPosture)]"]
      good_time_step [OF runh] total_time_step [OF sth assms]
      total_time_step [OF st assms, of start GoodPosture] zero
    by (simp add: Let_def updateAll_def)
qed

theorem good_posture_time_fixed_increment_witness:
  "(1000 :: int) \<noteq> 0
   \<and> goodPostureTime (sessionData (updateAll
        [(1001, GoodPosture), (1002, PoorPosture), (1003, GoodPosture), (1003, GoodPosture)]
        (startMonitoring 1000 newGuardian))) = 300
   \<and> totalTime (sessionData (updateAll
        [(1001, GoodPosture), (1002, PoorPosture), (1003, GoodPosture), (1003, GoodPosture)]
        (startMonitoring 1000 newGuardian))) = 3"
proof -
  have h: "(1000 :: int) \<noteq> 0" by simp
  have "totalTime (sessionData (updateAll
        [(1001, GoodPosture), (1002, PoorPosture), (1003, GoodPosture), (1003, GoodPosture)]
        (startMonitoring 1000 newGuardian))) = 3"
    using good_posture_time_fixed_increment [OF h, of newGuardian
        "[(1001, GoodPosture), (1002, PoorPosture), (1003, GoodPosture)]" 1003 GoodPosture]
    by (simp add: Let_def updateAll_def)
  then show ?thesis
    using good_posture_time_fixed_increment [OF h, of newGuardian
        "[(1001, GoodPosture), (1002, PoorPosture), (1003, GoodPosture), (1003, GoodPosture)]"]
    by (simp add: Let_def)
qed

subsection \<open>The session score and the streak\<close>

lemma sessionScore_value:
  "sessionScore a sd =
     Some (if 0 < totalTime sd
           then rnd a (rnd a (real_of_int (goodPostureTime sd) / real_of_int (totalTime sd)) * 100)
           else 0)"
  by (simp add: sessionScore_def js_divide_def)

lemma saveSessionData_streak:
  assumes "sessionScore a sd = Some sc"
  shows "\<exists>stats'. saveSessionData a today dayIndex sd stats = Some stats'
       \<and> currentStreak stats' = currentStreak (updateStreak today sc stats)
       \<and> bestStreak stats' = bestStreak (updateStreak today sc stats)
       \<and> lastSessionDate stats' = lastSessionDate (updateStreak today sc stats)"
  using assms
  by (simp add: saveSessionData_def Let_def js_divide_def orZero_def updateStreak_def)

lemma saveSessionData_total:
  "\<exists>stats'. saveSessionData a today dayIndex sd stats = Some stats'"
  using saveSessionData_streak [OF sessionScore_value] by blast

text \<open>
  Claim C7, as amended. The session score is the good posture time divided by the total
  time, the quotient times 100, in the arithmetic \<open>a\<close>, when the total time is positive,
  and 0 otherwise, in particular when the total time is 0: the division is never by zero,
  and \<open>saveSessionData\<close> always produces statistics. In exact arithmetic the score is the
  quotient times 100; in binary64 arithmetic the quotient and the product are each
  rounded, and the score is the quotient times 100 when neither rounding changes its
  number.
\<close>

theorem session_score_no_division_by_zero:
  "sessionScore a sd =
     Some (if 0 < totalTime sd
           then rnd a (rnd a (real_of_int (goodPostureTime sd) / real_of_int (totalTime sd)) * 100)
           else 0)
   \<and> sessionScore Exact sd =
       Some (if 0 < totalTime sd
             then real_of_int (goodPostureTime sd) / real_of_int (totalTime sd) * 100 else 0)
   \<and> (\<exists>stats'. saveSessionData a today dayIndex sd stats = Some stats')
   \<and> (0 < totalTime sd
        \<and> rnd a (real_of_int (goodPostureTime sd) / real_of_int (totalTime sd))
            = real_of_int (goodPostureTime sd) / real_of_int (totalTime sd)
        \<and> rnd a (real_of_int (goodPostureTime sd) / real_of_int (totalTime sd) * 100)
            = real_of_int (goodPostureTime sd) / real_of_int (totalTime sd) * 100
        \<longrightarrow> sessionScore a sd
              = Some (real_of_int (goodPostureTime sd) / real_of_int (totalTime sd) * 100))"
proof -
  have exact: "sessionScore Exact sd =
       Some (if 0 < totalTime sd
             then real_of_int (goodPostureTime sd) / real_of_int (totalTime sd) * 100 else 0)"
    using sessionScore_value [of Exact sd] by simp
  have unrounded: "sessionScore a sd
              = Some (real_of_int (goodPostureTime sd) / real_of_int (totalTime sd) * 100)"
    if "0 < totalTime sd"
      and "rnd a (real_of_int (goodPostureTime sd) / real_of_int (totalTime sd))
            = real_of_int (goodPostureTime sd) / real_of_int (totalTime sd)"
      and "rnd a (real_of_int (goodPostureTime sd) / real_of_int (totalTime sd) * 100)
            = real_of_int (goodPostureTime sd) / real_of_int (totalTime sd) * 100"
    using that by (simp add: sessionScore_value)
  show ?thesis
    using sessionScore_value [of a sd] exact saveSessionData_total [of a today dayIndex sd stats]
      unrounded
    by blast
qed

theorem session_score_no_division_by_zero_witness:
  "sessionScore Binary64 \<lparr>totalTime = 1000, goodPostureTime = 500, poorPostureWarnings = 1,
      currentPostureState = PoorPosture, postureHistory = []\<rparr> = Some 50
   \<and> sessionScore Binary64 \<lparr>totalTime = 0, goodPostureTime = 0, poorPostureWarnings = 0,
      currentPostureState = UnknownPosture, postureHistory = []\<rparr> = Some 0"
proof -
  let ?sd = "\<lparr>totalTime = 1000, goodPostureTime = 500, poorPostureWarnings = 1,
      currentPostureState = PoorPosture, postureHistory = []\<rparr>"
  let ?zero = "\<lparr>totalTime = 0, goodPostureTime = 0, poorPostureWarnings = 0,
      currentPostureState = UnknownPosture, postureHistory = []\<rparr>"
  have pos: "0 < totalTime ?sd" by simp
  have q: "rnd Binary64 (real_of_int (goodPostureTime ?sd) / real_of_int (totalTime ?sd))
             = real_of_int (goodPostureTime ?sd) / real_of_int (totalTime ?sd)"
    by (simp add: b64_eval)
  have p: "rnd Binary64 (real_of_int (goodPostureTime ?sd) / real_of_int (totalTime ?sd) * 100)
             = real_of_int (goodPostureTime ?sd) / real_of_int (totalTime ?sd) * 100"
    by (simp add: b64_eval)
  have "sessionScore Binary64 ?sd
          = Some (real_of_int (goodPostureTime ?sd) / real_of_int (totalTime ?sd) * 100)"
    using session_score_no_division_by_zero
        [of Binary64 ?sd "''Mon Nov 02 2026''" 1 emptyStatistics] pos q p
    by blast
  then have running: "sessionScore Binary64 ?sd = Some 50" by simp
  have "sessionScore Binary64 ?zero
          = Some (if 0 < totalTime ?zero
                  then rnd Binary64 (rnd Binary64 (real_of_int (goodPostureTime ?zero)
                         / real_of_int (totalTime ?zero)) * 100)
                  else 0)"
    using session_score_no_division_by_zero
        [of Binary64 ?zero "''Mon Nov 02 2026''" 1 emptyStatistics]
    by blast
  then have empty: "sessionScore Binary64 ?zero = Some 0" by simp
  from running empty show ?thesis by blast
qed

text \<open>
  Claim C7 as it is stated fails in binary64 arithmetic: a good posture time of 2900 in a
  total time of 10000 gives the score \<open>28.999999999999996\<close>, where 2900 divided by 10000
  times 100 is 29.
\<close>

theorem session_score_rounded:
  "sessionScore Binary64 \<lparr>totalTime = 10000, goodPostureTime = 2900, poorPostureWarnings = 0,
      currentPostureState = GoodPosture, postureHistory = []\<rparr>
     = Some (8162774324609023 / 281474976710656)
   \<and> (8162774324609023 / 281474976710656 :: real) \<noteq> 29
   \<and> real_of_int 2900 / real_of_int 10000 * 100 = (29 :: real)"
  by (simp add: sessionScore_def js_divide_def b64_eval)

text \<open>
  What \<open>saveSessionData\<close> does to the streaks: on a date other than the date of the last
  session the current streak grows by 1 when the score is at least 70 and is set to 0
  otherwise; a further session on the same date changes neither streak; the best streak is
  the maximum of the current streaks so far. The distance between the dates plays no part.
\<close>

lemma updateStreak_fields:
  "currentStreak (updateStreak today sc stats)
     = (if lastSessionDate stats = Some today then currentStreak stats
        else if 70 \<le> sc then Some (orZero (currentStreak stats) + 1) else Some 0)"
  "bestStreak (updateStreak today sc stats)
     = (if lastSessionDate stats \<noteq> Some today \<and> 70 \<le> sc
        then Some (max (orZero (bestStreak stats)) (orZero (currentStreak stats) + 1))
        else bestStreak stats)"
  "lastSessionDate (updateStreak today sc stats)
     = (if lastSessionDate stats = Some today then lastSessionDate stats else Some today)"
  by (simp_all add: updateStreak_def Let_def)

lemma best_streak_step:
  assumes "orZero (currentStreak stats) \<le> orZero (bestStreak stats)"
    and "saveSessionData a today dayIndex sd stats = Some stats'"
  shows "orZero (bestStreak stats')
           = max (orZero (bestStreak stats)) (orZero (currentStreak stats'))
       \<and> orZero (currentStreak stats') \<le> orZero (bestStreak stats')"
proof -
  obtain sc where sc: "sessionScore a sd = Some sc" using sessionScore_value by blast
  from saveSessionData_streak [OF sc, of today dayIndex stats] assms(2)
  have "currentStreak stats' = currentStreak (updateStreak today sc stats)"
    "bestStreak stats' = bestStreak (updateStreak today sc stats)"
    by auto
  then show ?thesis
    using assms(1) by (auto simp add: updateStreak_fields orZero_def split: option.splits)
qed

lemma best_streak_running_max:
  assumes "orZero (currentStreak stats) \<le> orZero (bestStreak stats)"
  shows "orZero (bestStreak (last (stats # saveAll a sessions stats)))
           = Max (set (orZero (bestStreak stats)
                        # map (\<lambda>s. orZero (currentStreak s)) (saveAll a sessions stats)))"
  using assms
proof (induction sessions arbitrary: stats)
  case Nil
  then show ?case by simp
next
  case (Cons x sessions)
  obtain today dayIndex sd where x: "x = (today, dayIndex, sd)" by (cases x)
  obtain stats' where s': "saveSessionData a today dayIndex sd stats = Some stats'"
    using saveSessionData_total by blast
  from best_streak_step [OF Cons.prems s']
  have step: "orZero (bestStreak stats')
           = max (orZero (bestStreak stats)) (orZero (currentStreak stats'))"
    and inv: "orZero (currentStreak stats') \<le> orZero (bestStreak stats')"
    by simp_all
  have all: "saveAll a (x # sessions) stats = stats' # saveAll a sessions stats'"
    by (simp add: x s')
  let ?rest = "map (\<lambda>s. orZero (currentStreak s)) (saveAll a sessions stats')"
  have "orZero (bestStreak (last (stats # saveAll a (x # sessions) stats)))
          = orZero (bestStreak (last (stats' # saveAll a sessions stats')))"
    by (simp add: all)
  also have "\<dots> = Max (set (orZero (bestStreak stats') # ?rest))"
    by (rule Cons.IH [OF inv])
  also have "\<dots> = Max (set (orZero (bestStreak stats) # orZero (currentStreak stats') # ?rest))"
    unfolding step by (cases "?rest = []") (simp_all add: max.assoc)
  finally show ?case by (simp add: all)
qed

lemma streak_steps:
  "(\<exists>sc stats'. sessionScore a sd = Some sc
       \<and> saveSessionData a today dayIndex sd stats = Some stats'
       \<and> currentStreak stats'
           = (if lastSessionDate stats = Some today then currentStreak stats
              else if 70 \<le> sc then Some (orZero (currentStreak stats) + 1) else Some 0)
       \<and> bestStreak stats'
           = (if lastSessionDate stats \<noteq> Some today \<and> 70 \<le> sc
              then Some (max (orZero (bestStreak stats)) (orZero (currentStreak stats) + 1))
              else bestStreak stats)
       \<and> lastSessionDate stats' = Some today)
   \<and> orZero (bestStreak (last (emptyStatistics # saveAll a sessions emptyStatistics)))
       = Max (set (0 # map (\<lambda>s. orZero (currentStreak s)) (saveAll a sessions emptyStatistics)))"
proof -
  obtain sc where sc: "sessionScore a sd = Some sc" using sessionScore_value by blast
  from saveSessionData_streak [OF sc, of today dayIndex stats]
  have first: "\<exists>sc stats'. sessionScore a sd = Some sc
       \<and> saveSessionData a today dayIndex sd stats = Some stats'
       \<and> currentStreak stats'
           = (if lastSessionDate stats = Some today then currentStreak stats
              else if 70 \<le> sc then Some (orZero (currentStreak stats) + 1) else Some 0)
       \<and> bestStreak stats'
           = (if lastSessionDate stats \<noteq> Some today \<and> 70 \<le> sc
              then Some (max (orZero (bestStreak stats)) (orZero (currentStreak stats) + 1))
              else bestStreak stats)
       \<and> lastSessionDate stats' = Some today"
    using sc by (auto simp add: updateStreak_fields)
  have "orZero (currentStreak emptyStatistics) \<le> orZero (bestStreak emptyStatistics)"
    by (simp add: emptyStatistics_def orZero_def)
  from best_streak_running_max [OF this, of a sessions]
  have second: "orZero (bestStreak (last (emptyStatistics # saveAll a sessions emptyStatistics)))
       = Max (set (0 # map (\<lambda>s. orZero (currentStreak s)) (saveAll a sessions emptyStatistics)))"
    by (simp add: emptyStatistics_def orZero_def)
  from first second show ?thesis by blast
qed

text \<open>
  Claim C2 fails on the code. Two sessions of score 80, ended on a Monday and on the
  Wednesday after it, give the current streaks 1 and 2 and the best streaks 1 and 2: the
  missed Tuesday does not reset the streak, since \<open>saveSessionData\<close> only tests whether
  the date differs from the date of the last session.
\<close>

theorem missed_day_keeps_streak:
  "sessionScore Binary64 \<lparr>totalTime = 1000, goodPostureTime = 800, poorPostureWarnings = 0,
      currentPostureState = GoodPosture, postureHistory = []\<rparr> = Some 80
   \<and> map currentStreak
       (saveAll Binary64
          [(''Mon Nov 02 2026'', 1, \<lparr>totalTime = 1000, goodPostureTime = 800,
              poorPostureWarnings = 0, currentPostureState = GoodPosture, postureHistory = []\<rparr>),
           (''Wed Nov 04 2026'', 3, \<lparr>totalTime = 1000, goodPostureTime = 800,
              poorPostureWarnings = 0, currentPostureState = GoodPosture, postureHistory = []\<rparr>)]
          emptyStatistics)
     = [Some 1, Some 2]
   \<and> map bestStreak
       (saveAll Binary64
          [(''Mon Nov 02 2026'', 1, \<lparr>totalTime = 1000, goodPostureTime = 800,
              poorPostureWarnings = 0, currentPostureState = GoodPosture, postureHistory = []\<rparr>),
           (''Wed Nov 04 2026'', 3, \<lparr>totalTime = 1000, goodPostureTime = 800,
              poorPostureWarnings = 0, currentPostureState = GoodPosture, postureHistory = []\<rparr>)]
          emptyStatistics)
     = [Some 1, Some 2]"
proof -
  let ?sd = "\<lparr>totalTime = 1000, goodPostureTime = 800, poorPostureWarnings = 0,
      currentPostureState = GoodPosture, postureHistory = []\<rparr>"
  have score: "sessionScore Binary64 ?sd = Some 80"
    by (simp add: sessionScore_def js_divide_def b64_eval)
  obtain s1 where s1: "saveSessionData Binary64 ''Mon Nov 02 2026'' 1 ?sd emptyStatistics = Some s1"
    and c1: "currentStreak s1 = currentStreak (updateStreak ''Mon Nov 02 2026'' 80 emptyStatistics)"
    and b1: "bestStreak s1 = bestStreak (updateStreak ''Mon Nov 02 2026'' 80 emptyStatistics)"
    and d1: "lastSessionDate s1
               = lastSessionDate (updateStreak ''Mon Nov 02 2026'' 80 emptyStatistics)"
    using saveSessionData_streak [OF score, of "''Mon Nov 02 2026''" 1 emptyStatistics] by blast
  obtain s2 where s2: "saveSessionData Binary64 ''Wed Nov 04 2026'' 3 ?sd s1 = Some s2"
    and c2: "currentStreak s2 = currentStreak (updateStreak ''Wed Nov 04 2026'' 80 s1)"
    and b2: "bestStreak s2 = bestStreak (updateStreak ''Wed Nov 04 2026'' 80 s1)"
    using saveSessionData_streak [OF score, of "''Wed Nov 04 2026''" 3 s1] by blast
  have first: "currentStreak s1 = Some 1" "bestStreak s1 = Some 1"
    "lastSessionDate s1 = Some ''Mon Nov 02 2026''"
    by (simp_all add: c1 b1 d1 updateStreak_fields emptyStatistics_def orZero_def)
  have second: "currentStreak s2 = Some 2" "bestStreak s2 = Some 2"
    by (simp_all add: c2 b2 updateStreak_fields first orZero_def)
  have "saveAll Binary64
          [(''Mon Nov 02 2026'', 1, ?sd), (''Wed Nov 04 2026'', 3, ?sd)] emptyStatistics
          = [s1, s2]"
    by (simp add: s1 s2 del: One_nat_def)
  then show ?thesis
    using score first second by simp
qed

subsection \<open>calculateStreak\<close>

text \<open>
  The loop of \<open>calculateStreak\<close> compares each date with \<open>dates[streak]\<close>, which is that
  date itself, so no two dates are ever consecutive for it: the result is the number of
  leading dates equal to today, at most 1.
\<close>

lemma isConsecutiveDay_same: "\<not> isConsecutiveDay parseDate d d"
  by (simp add: isConsecutiveDay_def split: option.splits)

lemma streakLoop_counts_today:
  "rest = drop i dates \<Longrightarrow>
     streakLoop parseDate today dates rest i = i + length (takeWhile (\<lambda>d. d = today) rest)"
proof (induction rest arbitrary: i)
  case Nil
  then show ?case by simp
next
  case (Cons d rest)
  from Cons.prems have i: "i < length dates"
    by (metis drop_all list.distinct(1) not_le)
  from Cons.prems i have d: "dates ! i = d"
    by (metis Cons_nth_drop_Suc list.inject)
  from Cons.prems i have rest: "rest = drop (Suc i) dates"
    by (metis Cons_nth_drop_Suc list.inject)
  show ?case
    using Cons.IH [OF rest] i d by (simp add: isConsecutiveDay_same)
qed

lemma calculateStreak_counts_today:
  "calculateStreak parseDate today keys
     = length (takeWhile (\<lambda>d. d = today) (rev (sort keys)))"
  using streakLoop_counts_today [of "rev (sort keys)" 0 "rev (sort keys)" parseDate today]
  by (simp add: calculateStreak_def Let_def)

lemma takeWhile_eq_distinct:
  "distinct xs \<Longrightarrow> length (takeWhile (\<lambda>d. d = v) xs) \<le> 1"
  by (cases xs) (auto simp add: takeWhile_eq_Nil_iff intro: Suc_leI)

lemma calculateStreak_at_most_one:
  assumes "distinct keys"
  shows "calculateStreak parseDate today keys \<le> 1"
proof -
  from assms have "distinct (rev (sort keys))" by simp
  then show ?thesis
    unfolding calculateStreak_counts_today by (rule takeWhile_eq_distinct)
qed

end
